theory Spec2Isabelle
  imports Main
begin

section \<open>Strings: the Python string operations the connectors use\<close>

text \<open>
  \<^verbatim>\<open>'%d' % n\<close> for a Python integer: decimal digits, a leading minus sign for a
  negative number.
\<close>

definition digit_char :: "nat \<Rightarrow> char" where
  "digit_char d = ''0123456789'' ! (d mod 10)"

fun str_nat :: "nat \<Rightarrow> string" where
  "str_nat n = (if n < 10 then [digit_char n] else str_nat (n div 10) @ [digit_char n])"

declare str_nat.simps [simp del]

definition str_int :: "int \<Rightarrow> string" where
  "str_int i = (if i < 0 then CHR ''-'' # str_nat (nat (- i)) else str_nat (nat i))"

text \<open>\<^verbatim>\<open>s.split(c)\<close> with a one-character separator: every occurrence splits.\<close>

fun str_split :: "char \<Rightarrow> string \<Rightarrow> string list" where
  "str_split c [] = [[]]"
| "str_split c (x # xs) =
     (if x = c then [] # str_split c xs
      else (case str_split c xs of
              p # ps \<Rightarrow> (x # p) # ps
            | [] \<Rightarrow> [[x]]))"

text \<open>\<^verbatim>\<open>sep.join(parts)\<close>.\<close>

fun str_join :: "string \<Rightarrow> string list \<Rightarrow> string" where
  "str_join sep [] = []"
| "str_join sep [p] = p"
| "str_join sep (p # q # ps) = p @ sep @ str_join sep (q # ps)"

text \<open>
  \<^verbatim>\<open>os.path.join(a, b)\<close> with two arguments, as posixpath computes it: an absolute
  second component replaces the first; otherwise one separator stands between the two,
  and none is added after an empty first component or one that already ends in a slash.
\<close>

definition os_path_join :: "string \<Rightarrow> string \<Rightarrow> string" where
  "os_path_join a b =
     (if b \<noteq> [] \<and> hd b = CHR ''/'' then b
      else if a = [] \<or> last a = CHR ''/'' then a @ b
      else a @ ''/'' @ b)"

section \<open>Exceptions\<close>

text \<open>
  The exception classes the module raises, catches or names. \<open>RetryableFailure\<close> and
  \<open>NoValidRemoteError\<close> are declared in \<^verbatim>\<open>windlass.api\<close>; the two repository
  exceptions are the ECR client's. \<open>OtherException\<close> stands for any further subclass
  of \<open>Exception\<close> (a docker or requests error, a caller's own retryable kind) and
  \<open>OtherBaseException\<close> for a class outside \<open>Exception\<close> (KeyboardInterrupt,
  SystemExit).
\<close>

datatype exc_class =
    BaseException
  | Exception
  | LookupError
  | IndexError
  | ValueError
  | RetryableFailure
  | NoValidRemoteError
  | ClientError
  | RepositoryNotFoundException
  | RepositoryAlreadyExistsException
  | OtherException string
  | OtherBaseException string

text \<open>
  Modelled from the spec: the declarations of \<^verbatim>\<open>windlass.api.RetryableFailure\<close> and
  \<^verbatim>\<open>windlass.api.NoValidRemoteError\<close> are not part of the sources at hand; the spec
  describes them as failure kinds of their own (the base transient remote failure, the
  configuration error), so each is a direct subclass of \<open>Exception\<close>. The other
  entries follow Python's and botocore's class hierarchy. The list is the method
  resolution order: the class, then its ancestors.
\<close>

fun mro :: "exc_class \<Rightarrow> exc_class list" where
  "mro BaseException = [BaseException]"
| "mro Exception = [Exception, BaseException]"
| "mro LookupError = [LookupError, Exception, BaseException]"
| "mro IndexError = [IndexError, LookupError, Exception, BaseException]"
| "mro ValueError = [ValueError, Exception, BaseException]"
| "mro RetryableFailure = [RetryableFailure, Exception, BaseException]"
| "mro NoValidRemoteError = [NoValidRemoteError, Exception, BaseException]"
| "mro ClientError = [ClientError, Exception, BaseException]"
| "mro RepositoryNotFoundException =
     [RepositoryNotFoundException, ClientError, Exception, BaseException]"
| "mro RepositoryAlreadyExistsException =
     [RepositoryAlreadyExistsException, ClientError, Exception, BaseException]"
| "mro (OtherException n) = [OtherException n, Exception, BaseException]"
| "mro (OtherBaseException n) = [OtherBaseException n, BaseException]"

text \<open>
  An exception value: its class, its message, and the two links by which Python chains
  one exception to another (\<^verbatim>\<open>__cause__\<close>, set by \<^verbatim>\<open>raise ... from\<close>, and
  \<^verbatim>\<open>__context__\<close>, set when an exception is raised while another is handled).
\<close>

datatype exc = Exc (exc_cls: exc_class) (exc_msg: string) (exc_cause: "exc option")
  (exc_context: "exc option")

definition isinstance :: "exc \<Rightarrow> exc_class \<Rightarrow> bool" where
  "isinstance e c = (c \<in> set (mro (exc_cls e)))"

text \<open>An exception wraps another when it is chained to it directly.\<close>

definition wraps :: "exc \<Rightarrow> exc \<Rightarrow> bool" where
  "wraps e f = (exc_cause e = Some f \<or> exc_context e = Some f)"

section \<open>remote\_retry\<close>

text \<open>The module-level default, as the module sets it when it is loaded.\<close>

definition global_retry_backoff :: nat where
  "global_retry_backoff = 5"

text \<open>
  The retry policy. \<open>max_retries\<close> is a Python integer; \<open>retry_backoff\<close> is the
  number of seconds handed to \<^verbatim>\<open>time.sleep\<close>, a duration and so not negative.
  \<open>retry_on\<close> is the set of classes to retry on, kept as a list since the code only
  asks whether any member matches.
\<close>

record remote_retry =
  max_retries :: int
  retry_backoff :: nat
  retry_on :: "exc_class list"

text \<open>
  The constructor. \<open>g\<close> is the value of the module variable \<open>global_retry_backoff\<close>
  when the constructor runs; \<^verbatim>\<open>retry_backoff or global_retry_backoff\<close> takes it when
  the argument is None or zero. \<open>ro\<close> is the \<open>retry_on\<close> argument, empty for None.
\<close>

definition remote_retry_init :: "nat \<Rightarrow> int \<Rightarrow> nat option \<Rightarrow> exc_class list \<Rightarrow> remote_retry" where
  "remote_retry_init g mr rb ro =
     \<lparr> max_retries = mr,
       retry_backoff = (case rb of None \<Rightarrow> g | Some b \<Rightarrow> if b = 0 then g else b),
       retry_on = RetryableFailure # ro \<rparr>"

text \<open>\<^verbatim>\<open>remote_retry()\<close>: every argument at its default.\<close>

definition remote_retry_default :: "nat \<Rightarrow> remote_retry" where
  "remote_retry_default g = remote_retry_init g 3 None []"

text \<open>
  The state a wrapped call runs in: the world the operation acts on, and what the
  wrapper itself does to the outside, the calls of \<^verbatim>\<open>time.sleep\<close> (their durations, in
  order) and of \<^verbatim>\<open>logging.exception\<close> (the message and the exception logged).
\<close>

record 'w rt =
  world :: 'w
  slept :: "nat list"
  logged :: "(string \<times> exc) list"

type_synonym ('w, 'a) operation = "'w \<Rightarrow> (exc + 'a) \<times> 'w"

text \<open>
  The handler's test \<^verbatim>\<open>any(isinstance(e, r) for r in self.retry_on)\<close>, reached only
  for what \<^verbatim>\<open>except Exception\<close> catches.
\<close>

definition retryable :: "remote_retry \<Rightarrow> exc \<Rightarrow> bool" where
  "retryable r e = (isinstance e Exception \<and> list_ex (isinstance e) (retry_on r))"

definition backoff_message :: "remote_retry \<Rightarrow> string \<Rightarrow> string" where
  "backoff_message r nm =
     nm @ '': problem occuried retrying, backing off '' @ str_int (int (retry_backoff r))
        @ '' seconds''"

definition max_retries_message :: "remote_retry \<Rightarrow> string \<Rightarrow> string" where
  "max_retries_message r nm =
     nm @ '': Maximum number of retries occurred ('' @ str_int (max_retries r) @ '')''"

text \<open>
  The loop \<^verbatim>\<open>for i in range(0, self.max_retries)\<close> of \<open>retry_f\<close>, by the number of
  iterations left. \<open>nm\<close> is what \<^verbatim>\<open>'%s' % func\<close> prints for the wrapped function.
  After the loop the exception is raised outside every handler, so it is chained to
  nothing.
\<close>

fun retry_loop :: "remote_retry \<Rightarrow> string \<Rightarrow> ('w, 'a) operation \<Rightarrow> nat \<Rightarrow> 'w rt
    \<Rightarrow> (exc + 'a) \<times> 'w rt" where
  "retry_loop r nm func 0 s = (Inl (Exc Exception (max_retries_message r nm) None None), s)"
| "retry_loop r nm func (Suc n) s =
     (case func (world s) of
        (Inr v, w') \<Rightarrow> (Inr v, s\<lparr>world := w'\<rparr>)
      | (Inl e, w') \<Rightarrow>
          if \<not> isinstance e Exception then (Inl e, s\<lparr>world := w'\<rparr>)
          else if \<not> list_ex (isinstance e) (retry_on r) then (Inl e, s\<lparr>world := w'\<rparr>)
          else retry_loop r nm func n
                 (s\<lparr>world := w',
                    logged := logged s @ [(backoff_message r nm, e)],
                    slept := slept s @ [retry_backoff r]\<rparr>))"

definition retry_f :: "remote_retry \<Rightarrow> string \<Rightarrow> ('w, 'a) operation \<Rightarrow> 'w rt
    \<Rightarrow> (exc + 'a) \<times> 'w rt" where
  "retry_f r nm func s = retry_loop r nm func (nat (max_retries r)) s"

text \<open>
  The operation raises a retryable failure on each of \<open>k\<close> consecutive attempts, the
  first from world \<open>w\<close>: the failures in order, and the world the last attempt leaves.
\<close>

fun failing_run :: "remote_retry \<Rightarrow> ('w, 'a) operation \<Rightarrow> nat \<Rightarrow> 'w \<Rightarrow> (exc list \<times> 'w) option" where
  "failing_run r func 0 w = Some ([], w)"
| "failing_run r func (Suc k) w =
     (case func w of
        (Inr v, w') \<Rightarrow> None
      | (Inl e, w') \<Rightarrow>
          if retryable r e
          then (case failing_run r func k w' of
                  None \<Rightarrow> None
                | Some (es, w'') \<Rightarrow> Some (e # es, w''))
          else None)"

section \<open>The outside world\<close>

text \<open>
  A payload is the bytes a stream yields. Every call that leaves the process is an
  event of the trace, oldest first, with the arguments the code passes.
\<close>

type_synonym stream = string

datatype event =
    DockerFromEnv
  | DockerTag string string string
  | DockerPush string string string string
  | DockerRemoveImage string
  | EcrCreateRepository string
  | EcrSetRepositoryPolicy string string
  | S3UploadFileobj stream string string
  | HttpPut string stream string string
  | HttpHead string

type_synonym trace = "event list"

text \<open>
  What the outside answers. Each answer may depend on the trace so far, so that a call
  repeated later can fare differently. A call that raises answers with the exception
  as it leaves the call. \<open>requests_put\<close> and \<open>requests_head\<close> answer with the
  status code of the response; \<open>docker_push\<close> with the output stream of the push,
  which \<open>check_docker_stream\<close> (of \<^verbatim>\<open>windlass.images\<close>, taken as given) accepts
  or rejects with an exception.
\<close>

record 'o env =
  docker_from_env :: "trace \<Rightarrow> exc option"
  docker_tag :: "trace \<Rightarrow> string \<Rightarrow> string \<Rightarrow> string \<Rightarrow> exc option"
  docker_push :: "trace \<Rightarrow> string \<Rightarrow> string \<Rightarrow> exc + 'o"
  check_docker_stream :: "'o \<Rightarrow> exc option"
  docker_remove_image :: "trace \<Rightarrow> string \<Rightarrow> exc option"
  ecr_create_repository :: "trace \<Rightarrow> string \<Rightarrow> exc + string"
  ecr_set_repository_policy :: "trace \<Rightarrow> string \<Rightarrow> string \<Rightarrow> exc option"
  s3_upload_fileobj :: "trace \<Rightarrow> stream \<Rightarrow> string \<Rightarrow> string \<Rightarrow> exc option"
  requests_put :: "trace \<Rightarrow> string \<Rightarrow> stream \<Rightarrow> exc + int"
  requests_head :: "trace \<Rightarrow> string \<Rightarrow> exc + int"

text \<open>
  \<^verbatim>\<open>Response.ok\<close> of the requests library: true unless the status is a client or
  server error.
\<close>

definition response_ok :: "int \<Rightarrow> bool" where
  "response_ok status = (status < 400 \<or> 600 \<le> status)"

section \<open>DockerConnector\<close>

record docker_connector =
  username :: string
  password :: string
  registry_list :: "string list"

text \<open>
  \<^verbatim>\<open>local_image_name, local_image_tag = local_name.split(':')\<close>: the unpacking
  raises ValueError unless the split yields exactly two parts.
\<close>

definition split_name_tag :: "string \<Rightarrow> exc + (string \<times> string)" where
  "split_name_tag local_name =
     (case str_split CHR '':'' local_name of
        [n, t] \<Rightarrow> Inr (n, t)
      | [n] \<Rightarrow> Inl (Exc ValueError ''not enough values to unpack (expected 2, got 1)'' None None)
      | _ \<Rightarrow> Inl (Exc ValueError ''too many values to unpack (expected 2)'' None None))"

text \<open>
  The \<^verbatim>\<open>try ... finally\<close> of the upload: tag, push, check the stream, and in every
  case remove the image afterwards. An exception of the removal replaces whatever the
  block was leaving with.
\<close>

definition tag_and_push :: "'o env \<Rightarrow> docker_connector \<Rightarrow> string \<Rightarrow> string \<Rightarrow> string
    \<Rightarrow> trace \<Rightarrow> (exc + string) \<times> trace" where
  "tag_and_push env c local_name upload_path upload_tag tr0 =
     (let upload_url = upload_path @ '':'' @ upload_tag;
          tr1 = tr0 @ [DockerTag local_name upload_path upload_tag];
          (res, tr) =
            (case docker_tag env tr0 local_name upload_path upload_tag of
               Some e \<Rightarrow> (Inl e, tr1)
             | None \<Rightarrow>
                 (let tr2 = tr1 @ [DockerPush upload_path upload_tag (username c) (password c)]
                  in case docker_push env tr1 upload_path upload_tag of
                       Inl e \<Rightarrow> (Inl e, tr2)
                     | Inr output \<Rightarrow>
                         (case check_docker_stream env output of
                            Some e \<Rightarrow> (Inl e, tr2)
                          | None \<Rightarrow> (Inr upload_url, tr2))))
      in case docker_remove_image env tr upload_url of
           Some e \<Rightarrow> (Inl e, tr @ [DockerRemoveImage upload_url])
         | None \<Rightarrow> (res, tr @ [DockerRemoveImage upload_url]))"

text \<open>The body of \<open>DockerConnector.upload\<close>, before the decorator.\<close>

definition DockerConnector_upload_body :: "'o env \<Rightarrow> docker_connector \<Rightarrow> string
    \<Rightarrow> string option \<Rightarrow> string option \<Rightarrow> trace \<Rightarrow> (exc + string) \<times> trace" where
  "DockerConnector_upload_body env c local_name upload_name upload_tag tr =
     (case docker_from_env env tr of
        Some e \<Rightarrow> (Inl e, tr @ [DockerFromEnv])
      | None \<Rightarrow>
          (let tr0 = tr @ [DockerFromEnv]
           in case split_name_tag local_name of
                Inl e \<Rightarrow> (Inl e, tr0)
              | Inr (local_image_name, local_image_tag) \<Rightarrow>
                  (let upload_name' = (case upload_name of None \<Rightarrow> local_image_name | Some n \<Rightarrow> n);
                       upload_tag' = (case upload_tag of None \<Rightarrow> local_image_tag | Some t \<Rightarrow> t)
                   in case registry_list c of
                        [] \<Rightarrow> (Inl (Exc IndexError ''list index out of range'' None None), tr0)
                      | reg # _ \<Rightarrow>
                          tag_and_push env c local_name (reg @ ''/'' @ upload_name') upload_tag' tr0)))"

text \<open>
  \<open>DockerConnector.upload\<close> as decorated with \<^verbatim>\<open>@remote_retry()\<close>. The decorator
  runs when the class is created, so it reads the module default as loaded. \<open>nm\<close>
  is what \<^verbatim>\<open>'%s' % func\<close> prints for the method.
\<close>

definition DockerConnector_upload :: "'o env \<Rightarrow> string \<Rightarrow> docker_connector \<Rightarrow> string
    \<Rightarrow> string option \<Rightarrow> string option \<Rightarrow> trace rt \<Rightarrow> (exc + string) \<times> trace rt" where
  "DockerConnector_upload env nm c local_name upload_name upload_tag s =
     retry_f (remote_retry_default global_retry_backoff) nm
       (DockerConnector_upload_body env c local_name upload_name upload_tag) s"

section \<open>ECRConnector\<close>

record ecr_connector = docker_connector +
  path_prefixes :: "string list"
  new_repo_policy :: "string option"
  existing_repos :: "string set"

text \<open>\<open>_set_repo_policy\<close>: only a policy that is neither None nor empty is applied.\<close>

definition set_repo_policy :: "'o env \<Rightarrow> ecr_connector \<Rightarrow> string \<Rightarrow> trace
    \<Rightarrow> (exc + unit) \<times> trace" where
  "set_repo_policy env c repository_name tr =
     (case new_repo_policy c of
        None \<Rightarrow> (Inr (), tr)
      | Some policy_text \<Rightarrow>
          if policy_text = [] then (Inr (), tr)
          else (case ecr_set_repository_policy env tr repository_name policy_text of
                  Some e \<Rightarrow> (Inl e, tr @ [EcrSetRepositoryPolicy repository_name policy_text])
                | None \<Rightarrow> (Inr (), tr @ [EcrSetRepositoryPolicy repository_name policy_text])))"

text \<open>
  The inner function \<open>_create_repo\<close>, before its decorator: an "already exists" answer
  of the creation is caught, every other exception leaves the function.
\<close>

definition create_repo_body :: "'o env \<Rightarrow> ecr_connector \<Rightarrow> string \<Rightarrow> trace
    \<Rightarrow> (exc + unit) \<times> trace" where
  "create_repo_body env c image_name tr =
     (let tr1 = tr @ [EcrCreateRepository image_name]
      in case ecr_create_repository env tr image_name of
           Inr uri \<Rightarrow> set_repo_policy env c image_name tr1
         | Inl e \<Rightarrow>
             if isinstance e RepositoryAlreadyExistsException
             then set_repo_policy env c image_name tr1
             else (Inl e, tr1))"

text \<open>
  \<open>_create_repo_if_new\<close>. The decorator of the inner function runs at each call, so
  it reads the module default of that moment, \<open>g\<close>. The connector is returned with
  its catalogue as the call leaves it.
\<close>

definition create_repo_if_new :: "'o env \<Rightarrow> nat \<Rightarrow> string \<Rightarrow> ecr_connector \<Rightarrow> string
    \<Rightarrow> trace rt \<Rightarrow> (exc + unit) \<times> ecr_connector \<times> trace rt" where
  "create_repo_if_new env g nm c image_name s =
     (if image_name \<in> existing_repos c then (Inr (), c, s)
      else (case retry_f (remote_retry_init g 3 None [RepositoryNotFoundException]) nm
                   (create_repo_body env c image_name) s of
              (Inl e, s') \<Rightarrow> (Inl e, c, s')
            | (Inr u, s') \<Rightarrow>
                (Inr (), c\<lparr>existing_repos := insert image_name (existing_repos c)\<rparr>, s')))"

text \<open>
  \<open>ECRConnector.upload\<close>. \<open>nm_create\<close> and \<open>nm_upload\<close> are what
  \<^verbatim>\<open>'%s' % func\<close> prints for \<open>_create_repo\<close> and for the inherited upload.
\<close>

definition ECRConnector_upload :: "'o env \<Rightarrow> nat \<Rightarrow> string \<Rightarrow> string \<Rightarrow> ecr_connector
    \<Rightarrow> string \<Rightarrow> string option \<Rightarrow> string option \<Rightarrow> trace rt
    \<Rightarrow> (exc + string) \<times> ecr_connector \<times> trace rt" where
  "ECRConnector_upload env g nm_create nm_upload c local_name upload_name upload_tag s =
     (case split_name_tag local_name of
        Inl e \<Rightarrow> (Inl e, c, s)
      | Inr (local_image_name, local_image_tag) \<Rightarrow>
          (let upload_name' = (case upload_name of None \<Rightarrow> local_image_name | Some n \<Rightarrow> n)
           in case path_prefixes c of
                [] \<Rightarrow> (Inl (Exc IndexError ''list index out of range'' None None), c, s)
              | prefix # _ \<Rightarrow>
                  (let upload_path = prefix @ upload_name'
                   in case create_repo_if_new env g nm_create c upload_path s of
                        (Inl e, c', s') \<Rightarrow> (Inl e, c', s')
                      | (Inr u, c', s') \<Rightarrow>
                          (case DockerConnector_upload env nm_upload
                                  (docker_connector.truncate c') local_name
                                  (Some upload_path) upload_tag s' of
                             (res, s'') \<Rightarrow> (res, c', s'')))))"

text \<open>
  The creation call, made after trace \<open>tr\<close>, finds the repository there afterwards:
  it answers with the new repository, or raises the "already exists" exception that
  \<open>_create_repo\<close> catches.
\<close>

definition repository_there :: "'o env \<Rightarrow> trace \<Rightarrow> string \<Rightarrow> bool" where
  "repository_there env tr image_name =
     (case ecr_create_repository env tr image_name of
        Inr uri \<Rightarrow> True
      | Inl e \<Rightarrow> isinstance e RepositoryAlreadyExistsException)"

section \<open>S3Connector\<close>

record s3_connector =
  bucket :: string
  path_prefix :: string

definition obj_url :: "s3_connector \<Rightarrow> string \<Rightarrow> string" where
  "obj_url c upload_name =
     ''https://'' @ bucket c @ ''.s3.amazonaws.com/'' @ path_prefix c @ upload_name"

definition S3Connector_upload :: "'o env \<Rightarrow> s3_connector \<Rightarrow> string \<Rightarrow> stream \<Rightarrow> trace
    \<Rightarrow> (exc + string) \<times> trace" where
  "S3Connector_upload env c upload_name strm tr =
     (let key = path_prefix c @ upload_name;
          tr' = tr @ [S3UploadFileobj strm (bucket c) key]
      in case s3_upload_fileobj env tr strm (bucket c) key of
           Some e \<Rightarrow> (Inl e, tr')
         | None \<Rightarrow> (Inr (obj_url c upload_name), tr'))"

section \<open>ExceptionConnector\<close>

text \<open>
  The placeholder of a channel that was never set up: \<open>remote\<close> is what
  \<^verbatim>\<open>'%s' % self.remote\<close> prints for the owning remote. Every attribute access raises.
\<close>

record exception_connector =
  remote :: string
  artifact_type :: string

definition ExceptionConnector_getattr :: "exception_connector \<Rightarrow> exc" where
  "ExceptionConnector_getattr c =
     Exc NoValidRemoteError
       (''No '' @ remote c @ '' connector configured for '' @ artifact_type c) None None"

section \<open>HTTPBasicAuthConnector and HTTPBasicAuthConnector2Phase\<close>

record http_connector =
  base_url :: string
  http_username :: string
  http_password :: string

text \<open>
  \<open>properties\<close> is a dictionary; its items in insertion order are a list of pairs.
\<close>

definition matrix_props :: "(string \<times> string) list \<Rightarrow> string" where
  "matrix_props properties = str_join '';'' (map (\<lambda>(k, v). k @ ''='' @ v) properties)"

definition http_upload_url :: "http_connector \<Rightarrow> string \<Rightarrow> (string \<times> string) list \<Rightarrow> string" where
  "http_upload_url c upload_name properties =
     (let upload_url = os_path_join (base_url c) upload_name;
          props = matrix_props properties
      in if props \<noteq> [] then upload_url @ '';'' @ props else upload_url)"

definition HTTPBasicAuthConnector_upload :: "'o env \<Rightarrow> http_connector \<Rightarrow> string \<Rightarrow> stream
    \<Rightarrow> (string \<times> string) list \<Rightarrow> trace \<Rightarrow> (exc + string) \<times> trace" where
  "HTTPBasicAuthConnector_upload env c upload_name strm properties tr =
     (let upload_url = http_upload_url c upload_name properties;
          tr' = tr @ [HttpPut upload_url strm (http_username c) (http_password c)]
      in case requests_put env tr upload_url strm of
           Inl e \<Rightarrow> (Inl e, tr')
         | Inr status_code \<Rightarrow>
             if status_code \<noteq> 201
             then (Inl (Exc RetryableFailure
                     (''Failed (status: '' @ str_int status_code @ '') to upload '' @ upload_url)
                     None None), tr')
             else (Inr upload_url, tr'))"

record http_connector_2phase = http_connector +
  temp_path :: string

definition HTTPBasicAuthConnector2Phase_upload :: "'o env \<Rightarrow> http_connector_2phase \<Rightarrow> string
    \<Rightarrow> stream \<Rightarrow> (string \<times> string) list \<Rightarrow> trace \<Rightarrow> (exc + string) \<times> trace" where
  "HTTPBasicAuthConnector2Phase_upload env c upload_name strm properties tr =
     (let staged = HTTPBasicAuthConnector_upload env (http_connector.truncate c)
                     (os_path_join (temp_path c) upload_name) strm properties
      in if temp_path c \<noteq> [] then
           (let check_url = os_path_join (base_url c) upload_name;
                tr' = tr @ [HttpHead check_url]
            in case requests_head env tr check_url of
                 Inl e \<Rightarrow> (Inl e, tr')
               | Inr status \<Rightarrow>
                   if response_ok status
                   then (Inl (Exc Exception (''Artifact '' @ check_url @ '' already exists'')
                           None None), tr')
                   else staged tr')
         else staged tr)"

section \<open>AWSRemote\<close>

text \<open>
  The generic-artifact channel of the remote: the placeholder until \<open>setup_generic\<close>
  binds an S3 connector.
\<close>

datatype generic_slot = Unconfigured exception_connector | S3 s3_connector

record aws_remote =
  key_id :: string
  secret_key :: string
  region :: "string option"
  generic_connector :: generic_slot

definition AWSRemote_str :: "string \<Rightarrow> string option \<Rightarrow> string" where
  "AWSRemote_str kid reg =
     ''AWSRemote(region='' @ (case reg of None \<Rightarrow> ''None'' | Some r \<Rightarrow> r)
       @ '', key_id='' @ kid @ '')''"

definition AWSRemote_init :: "string \<Rightarrow> string \<Rightarrow> string option \<Rightarrow> aws_remote" where
  "AWSRemote_init kid sk reg =
     \<lparr> key_id = kid, secret_key = sk, region = reg,
       generic_connector =
         Unconfigured \<lparr> remote = AWSRemote_str kid reg, artifact_type = ''generic'' \<rparr> \<rparr>"

definition setup_generic :: "aws_remote \<Rightarrow> string \<Rightarrow> string option \<Rightarrow> aws_remote" where
  "setup_generic r bkt prefix =
     r\<lparr>generic_connector :=
         S3 \<lparr> bucket = bkt,
              path_prefix = (case prefix of None \<Rightarrow> [] | Some p \<Rightarrow> p) \<rparr>\<rparr>"

definition AWSRemote_upload_generic :: "'o env \<Rightarrow> aws_remote \<Rightarrow> string \<Rightarrow> stream
    \<Rightarrow> (string \<times> string) list \<Rightarrow> trace \<Rightarrow> (exc + string) \<times> trace" where
  "AWSRemote_upload_generic env r name strm properties tr =
     (case generic_connector r of
        Unconfigured c \<Rightarrow> (Inl (ExceptionConnector_getattr c), tr)
      | S3 c \<Rightarrow> S3Connector_upload env c name strm tr)"

section \<open>Callers and examples\<close>

text \<open>
  A caller's successive uploads through one ECR connector, the catalogue and the world
  handed from each call to the next; the results are dropped. This is the publishing
  loop the module is written for, not a function of the module.
\<close>

fun ECRConnector_uploads :: "'o env \<Rightarrow> nat \<Rightarrow> string \<Rightarrow> string \<Rightarrow> ecr_connector
    \<Rightarrow> (string \<times> string option \<times> string option) list \<Rightarrow> trace rt
    \<Rightarrow> ecr_connector \<times> trace rt" where
  "ECRConnector_uploads env g nm_create nm_upload c [] s = (c, s)"
| "ECRConnector_uploads env g nm_create nm_upload c ((local_name, upload_name, upload_tag) # reqs) s =
     (case ECRConnector_upload env g nm_create nm_upload c local_name upload_name upload_tag s of
        (res, c', s') \<Rightarrow> ECRConnector_uploads env g nm_create nm_upload c' reqs s')"

text \<open>
  An outside in which every call succeeds, for the worked examples: the instances below
  change one answer of it at a time.
\<close>

definition example_env :: "unit env" where
  "example_env =
     \<lparr> docker_from_env = (\<lambda>tr. None),
       docker_tag = (\<lambda>tr local_name path tag. None),
       docker_push = (\<lambda>tr path tag. Inr ()),
       check_docker_stream = (\<lambda>output. None),
       docker_remove_image = (\<lambda>tr url. None),
       ecr_create_repository = (\<lambda>tr name. Inr (''uri/'' @ name)),
       ecr_set_repository_policy = (\<lambda>tr name policy. None),
       s3_upload_fileobj = (\<lambda>tr strm bkt key. None),
       requests_put = (\<lambda>tr url strm. Inr 201),
       requests_head = (\<lambda>tr url. Inr 404) \<rparr>"

section \<open>Properties of remote\_retry\<close>

text \<open>
  A run of \<open>k\<close> retryable failures takes \<open>k\<close> iterations of the loop, each of
  which logs the failure and sleeps once.
\<close>

lemma retry_loop_failing_run:
  "failing_run r func k (world s) = Some (es, w1) \<Longrightarrow>
   retry_loop r nm func (k + n) s =
   retry_loop r nm func n
     (s\<lparr>world := w1,
        logged := logged s @ map (\<lambda>e. (backoff_message r nm, e)) es,
        slept := slept s @ replicate k (retry_backoff r)\<rparr>)"
proof (induction k arbitrary: s es)
  case 0
  then have "es = []" and "w1 = world s" by simp_all
  then show ?case by simp
next
  case (Suc k)
  obtain res w' where fw: "func (world s) = (res, w')" by (cases "func (world s)")
  from Suc.prems fw obtain e where res: "res = Inl e" and re: "retryable r e"
    by (cases res) (auto split: if_splits)
  from Suc.prems fw res re obtain es' where
    fr: "failing_run r func k w' = Some (es', w1)" and es: "es = e # es'"
    by (auto split: option.splits)
  let ?s' = "s\<lparr>world := w', logged := logged s @ [(backoff_message r nm, e)],
                slept := slept s @ [retry_backoff r]\<rparr>"
  have step: "retry_loop r nm func (Suc k + n) s = retry_loop r nm func (k + n) ?s'"
    using fw res re by (simp add: retryable_def)
  have "failing_run r func k (world ?s') = Some (es', w1)" using fr by simp
  from Suc.IH[OF this, of ] show ?case
    unfolding step using es by (simp add: replicate_append_same)
qed

lemma failing_run_length: "failing_run r func k w = Some (es, w1) \<Longrightarrow> length es = k"
  by (induction k arbitrary: w es) (auto split: prod.splits sum.splits if_splits option.splits)

lemma str_nat_digit: "n < 10 \<Longrightarrow> str_nat n = [digit_char n]"
  by (simp add: str_nat.simps)

text \<open>
  What the wrapper does to the world is what the operation does: an invariant of the
  operation is an invariant of the wrapped call. A first attempt that succeeds, or that
  fails with an exception the handler does not retry on, ends the call.
\<close>

lemma retry_loop_invariant:
  assumes "\<And>w. I w \<Longrightarrow> I (snd (func w))" and "I (world s)"
  shows "I (world (snd (retry_loop r nm func n s)))"
  using assms(2)
proof (induction n arbitrary: s)
  case 0
  then show ?case by simp
next
  case (Suc n)
  obtain res w' where fw: "func (world s) = (res, w')" by (cases "func (world s)")
  have Iw': "I w'" using assms(1)[OF Suc.prems] fw by simp
  show ?case
  proof (cases res)
    case (Inr v)
    with fw Iw' show ?thesis by simp
  next
    case (Inl e)
    let ?s' = "s\<lparr>world := w', logged := logged s @ [(backoff_message r nm, e)],
                  slept := slept s @ [retry_backoff r]\<rparr>"
    have "I (world ?s')" using Iw' by simp
    from Suc.IH[OF this] fw Inl Iw' show ?thesis by simp
  qed
qed

lemma retry_f_invariant:
  assumes "\<And>w. I w \<Longrightarrow> I (snd (func w))" and "I (world s)"
  shows "I (world (snd (retry_f r nm func s)))"
  unfolding retry_f_def using assms by (rule retry_loop_invariant)

lemma retry_f_not_retryable:
  assumes "func (world s) = (Inl e, w1)"
    and "\<not> retryable r e"
    and "0 < max_retries r"
  shows "retry_f r nm func s = (Inl e, s\<lparr>world := w1\<rparr>)"
proof -
  define n where "n = nat (max_retries r) - 1"
  have n: "nat (max_retries r) = Suc n"
    using assms(3) by (simp add: n_def)
  show ?thesis unfolding retry_f_def n using assms(1,2) by (auto simp: retryable_def)
qed

lemma retry_f_success_first:
  assumes "func (world s) = (Inr v, w1)" and "0 < max_retries r"
  shows "retry_f r nm func s = (Inr v, s\<lparr>world := w1\<rparr>)"
proof -
  define n where "n = nat (max_retries r) - 1"
  have n: "nat (max_retries r) = Suc n"
    using assms(2) by (simp add: n_def)
  show ?thesis unfolding retry_f_def n using assms(1) by simp
qed

lemma retry_f_invariant_first:
  assumes "0 < max_retries r"
    and "J (snd (func (world s)))"
    and "\<And>w. J w \<Longrightarrow> J (snd (func w))"
  shows "J (world (snd (retry_f r nm func s)))"
proof -
  define n where "n = nat (max_retries r) - 1"
  have n: "nat (max_retries r) = Suc n" using assms(1) by (simp add: n_def)
  obtain res w' where fw: "func (world s) = (res, w')" by (cases "func (world s)")
  have Jw: "J w'" using assms(2) fw by simp
  show ?thesis
  proof (cases res)
    case (Inr v)
    with fw Jw show ?thesis by (simp add: retry_f_def n)
  next
    case (Inl e)
    let ?s' = "s\<lparr>world := w', logged := logged s @ [(backoff_message r nm, e)],
                  slept := slept s @ [retry_backoff r]\<rparr>"
    have "J (world ?s')" using Jw by simp
    from retry_loop_invariant[where I = J and func = func and s = ?s', OF assms(3) this]
    have "J (world (snd (retry_loop r nm func n ?s')))" .
    with fw Inl Jw show ?thesis by (simp add: retry_f_def n)
  qed
qed

text \<open>
  C1, as the spec states it: after \<open>max_retries\<close> retryable failures in a row the call
  raises an error that wraps the last observed failure. It does not: with one attempt
  allowed and an operation that raises \<open>RetryableFailure('boom')\<close>, the exception
  raised has neither cause nor context, and its message does not mention the failure.
\<close>

theorem remote_retry_wraps_counterexample:
  "failing_run (remote_retry_init 5 1 None [])
     (\<lambda>w::unit. (Inl (Exc RetryableFailure ''boom'' None None) :: exc + string, w)) 1 ()
     = Some ([Exc RetryableFailure ''boom'' None None], ())
   \<and> fst (retry_f (remote_retry_init 5 1 None []) ''upload''
        (\<lambda>w::unit. (Inl (Exc RetryableFailure ''boom'' None None) :: exc + string, w))
        \<lparr>world = (), slept = [], logged = []\<rparr>)
     = Inl (Exc Exception ''upload: Maximum number of retries occurred (1)'' None None)
   \<and> \<not> wraps (Exc Exception ''upload: Maximum number of retries occurred (1)'' None None)
         (Exc RetryableFailure ''boom'' None None)"
  by (simp add: retry_f_def remote_retry_init_def retryable_def isinstance_def wraps_def
      max_retries_message_def str_int_def str_nat_digit digit_char_def)

text \<open>
  C1, amended: when the operation raises a retryable failure on each of
  \<open>max_retries\<close> consecutive attempts, the call raises a plain \<open>Exception\<close> whose
  message is the printed operation, then ": Maximum number of retries occurred (", the
  attempt count and ")". The exception is chained to nothing; the failures are only
  logged, one record and one sleep per attempt.
\<close>

theorem remote_retry_exhausted:
  assumes "failing_run r func (nat (max_retries r)) (world s) = Some (es, w1)"
  shows "retry_f r nm func s =
    (Inl (Exc Exception
            (nm @ '': Maximum number of retries occurred ('' @ str_int (max_retries r) @ '')'')
            None None),
     s\<lparr>world := w1,
       logged := logged s @ map (\<lambda>e. (backoff_message r nm, e)) es,
       slept := slept s @ replicate (nat (max_retries r)) (retry_backoff r)\<rparr>)"
  using retry_loop_failing_run[OF assms, of nm 0]
  by (simp add: retry_f_def max_retries_message_def)

theorem remote_retry_exhausted_witness:
  "failing_run (remote_retry_init 5 2 None [])
     (\<lambda>w::nat. (Inl (Exc RetryableFailure ''boom'' None None) :: exc + string, Suc w)) 2 0
     = Some ([Exc RetryableFailure ''boom'' None None, Exc RetryableFailure ''boom'' None None], 2)
   \<and> retry_f (remote_retry_init 5 2 None []) ''upload''
        (\<lambda>w::nat. (Inl (Exc RetryableFailure ''boom'' None None) :: exc + string, Suc w))
        \<lparr>world = 0, slept = [], logged = []\<rparr>
     = (Inl (Exc Exception ''upload: Maximum number of retries occurred (2)'' None None),
        \<lparr>world = 2, slept = [5, 5],
          logged = [(''upload: problem occuried retrying, backing off 5 seconds'',
                     Exc RetryableFailure ''boom'' None None),
                    (''upload: problem occuried retrying, backing off 5 seconds'',
                     Exc RetryableFailure ''boom'' None None)]\<rparr>)"
proof -
  let ?r = "remote_retry_init 5 2 None []"
  let ?f = "\<lambda>w::nat. (Inl (Exc RetryableFailure ''boom'' None None) :: exc + string, Suc w)"
  let ?s = "\<lparr>world = 0::nat, slept = [], logged = []\<rparr>"
  let ?es = "[Exc RetryableFailure ''boom'' None None, Exc RetryableFailure ''boom'' None None]"
  have h: "failing_run ?r ?f 2 0 = Some (?es, 2)"
    by (simp add: eval_nat_numeral remote_retry_init_def retryable_def isinstance_def)
  have h': "failing_run ?r ?f (nat (max_retries ?r)) (world ?s) = Some (?es, 2)"
    using h by (simp add: remote_retry_init_def)
  have m: "backoff_message ?r ''upload''
      = ''upload: problem occuried retrying, backing off 5 seconds''"
    by (simp add: backoff_message_def remote_retry_init_def str_int_def str_nat_digit
        digit_char_def)
  have mr: "max_retries ?r = 2" and rb: "retry_backoff ?r = 5"
    by (simp_all add: remote_retry_init_def)
  have si: "str_int 2 = ''2''" by (simp add: str_int_def str_nat_digit digit_char_def)
  have rep: "replicate 2 (5::nat) = [5, 5]" by (simp add: numeral_2_eq_2)
  have "retry_f ?r ''upload'' ?f ?s
     = (Inl (Exc Exception ''upload: Maximum number of retries occurred (2)'' None None),
        \<lparr>world = 2, slept = [5, 5],
          logged = [(''upload: problem occuried retrying, backing off 5 seconds'',
                     Exc RetryableFailure ''boom'' None None),
                    (''upload: problem occuried retrying, backing off 5 seconds'',
                     Exc RetryableFailure ''boom'' None None)]\<rparr>)"
    using remote_retry_exhausted[where r = "?r" and func = "?f" and s = "?s" and es = "?es"
        and ?w1.0 = 2 and nm = "''upload''", OF h']
    by (simp add: m rep mr rb si)
  with h show ?thesis by simp
qed

text \<open>
  C3: when the operation raises a retryable failure on exactly \<open>k\<close> consecutive
  attempts, \<open>k\<close> below \<open>max_retries\<close>, and then succeeds, the wrapped call returns
  the operation's value and sleeps exactly \<open>k\<close> times, each time for the configured
  backoff.
\<close>

theorem remote_retry_then_success:
  assumes "failing_run r func k (world s) = Some (es, w1)"
    and "func w1 = (Inr v, w2)"
    and "int k < max_retries r"
  shows "retry_f r nm func s =
    (Inr v,
     s\<lparr>world := w2,
       logged := logged s @ map (\<lambda>e. (backoff_message r nm, e)) es,
       slept := slept s @ replicate k (retry_backoff r)\<rparr>)
    \<and> length (slept (snd (retry_f r nm func s))) = length (slept s) + k"
proof -
  define n where "n = nat (max_retries r) - Suc k"
  have n: "nat (max_retries r) = k + Suc n"
    using assms(3) by (simp add: n_def)
  have "retry_f r nm func s =
    (Inr v,
     s\<lparr>world := w2,
       logged := logged s @ map (\<lambda>e. (backoff_message r nm, e)) es,
       slept := slept s @ replicate k (retry_backoff r)\<rparr>)"
    unfolding retry_f_def n
    using retry_loop_failing_run[OF assms(1), of nm "Suc n"] assms(2) by simp
  then show ?thesis by simp
qed

theorem remote_retry_then_success_witness:
  "failing_run (remote_retry_init 5 3 None [])
     (\<lambda>w::nat. if w < 2 then (Inl (Exc RetryableFailure ''boom'' None None), Suc w)
                else (Inr ''ok'', Suc w)) 2 0
     = Some ([Exc RetryableFailure ''boom'' None None, Exc RetryableFailure ''boom'' None None], 2)
   \<and> retry_f (remote_retry_init 5 3 None []) ''upload''
        (\<lambda>w::nat. if w < 2 then (Inl (Exc RetryableFailure ''boom'' None None), Suc w)
                   else (Inr ''ok'', Suc w))
        \<lparr>world = 0, slept = [], logged = []\<rparr>
     = (Inr ''ok'',
        \<lparr>world = 3, slept = [5, 5],
          logged = [(''upload: problem occuried retrying, backing off 5 seconds'',
                     Exc RetryableFailure ''boom'' None None),
                    (''upload: problem occuried retrying, backing off 5 seconds'',
                     Exc RetryableFailure ''boom'' None None)]\<rparr>)"
proof -
  let ?r = "remote_retry_init 5 3 None []"
  let ?f = "\<lambda>w::nat. if w < 2 then (Inl (Exc RetryableFailure ''boom'' None None), Suc w)
                else (Inr ''ok'', Suc w)"
  let ?s = "\<lparr>world = 0::nat, slept = [], logged = []\<rparr>"
  let ?es = "[Exc RetryableFailure ''boom'' None None, Exc RetryableFailure ''boom'' None None]"
  have h: "failing_run ?r ?f 2 0 = Some (?es, 2)"
    by (simp add: eval_nat_numeral remote_retry_init_def retryable_def isinstance_def)
  have h1: "failing_run ?r ?f 2 (world ?s) = Some (?es, 2)"
    using h by simp
  have h2: "?f 2 = (Inr ''ok'', 3)" by simp
  have h3: "int 2 < max_retries ?r" by (simp add: remote_retry_init_def)
  have m: "backoff_message ?r ''upload''
      = ''upload: problem occuried retrying, backing off 5 seconds''"
    by (simp add: backoff_message_def remote_retry_init_def str_int_def str_nat_digit
        digit_char_def)
  have mr: "max_retries ?r = 3" and rb: "retry_backoff ?r = 5"
    by (simp_all add: remote_retry_init_def)
  have si: "str_int 2 = ''2''" by (simp add: str_int_def str_nat_digit digit_char_def)
  have rep: "replicate 2 (5::nat) = [5, 5]" by (simp add: numeral_2_eq_2)
  have "retry_f ?r ''upload'' ?f ?s
     = (Inr ''ok'',
        \<lparr>world = 3, slept = [5, 5],
          logged = [(''upload: problem occuried retrying, backing off 5 seconds'',
                     Exc RetryableFailure ''boom'' None None),
                    (''upload: problem occuried retrying, backing off 5 seconds'',
                     Exc RetryableFailure ''boom'' None None)]\<rparr>)"
    using remote_retry_then_success[where r = "?r" and func = "?f" and s = "?s" and es = "?es"
        and ?w1.0 = 2 and ?w2.0 = 3 and v = "''ok''" and k = 2 and nm = "''upload''",
        OF h1 h2 h3]
    by (simp add: m rep mr rb si)
  with h show ?thesis by simp
qed

text \<open>
  C7: a failure of the first invocation that the handler does not retry on leaves the
  wrapped call unchanged and at once: the same exception, the world as the operation
  left it, no sleep and no log record. The first invocation exists when \<open>max_retries\<close>
  is positive.
\<close>

theorem remote_retry_not_retryable:
  assumes "func (world s) = (Inl e, w1)"
    and "\<not> retryable r e"
    and "0 < max_retries r"
  shows "retry_f r nm func s = (Inl e, s\<lparr>world := w1\<rparr>)"
  using assms by (rule retry_f_not_retryable)

theorem remote_retry_not_retryable_witness:
  "\<not> retryable (remote_retry_init 5 3 None []) (Exc ValueError ''bad'' None None)
   \<and> retry_f (remote_retry_init 5 3 None []) ''upload''
        (\<lambda>w::nat. (Inl (Exc ValueError ''bad'' None None) :: exc + string, Suc w))
        \<lparr>world = 0, slept = [], logged = []\<rparr>
     = (Inl (Exc ValueError ''bad'' None None), \<lparr>world = 1, slept = [], logged = []\<rparr>)"
proof -
  let ?r = "remote_retry_init 5 3 None []"
  let ?f = "\<lambda>w::nat. (Inl (Exc ValueError ''bad'' None None) :: exc + string, Suc w)"
  let ?s = "\<lparr>world = 0::nat, slept = [], logged = []\<rparr>"
  have h1: "?f (world ?s) = (Inl (Exc ValueError ''bad'' None None), 1)" by simp
  have h2: "\<not> retryable ?r (Exc ValueError ''bad'' None None)"
    by (simp add: remote_retry_init_def retryable_def isinstance_def)
  have h3: "0 < max_retries ?r" by (simp add: remote_retry_init_def)
  show ?thesis
    using remote_retry_not_retryable[where r = "?r" and func = "?f" and s = "?s"
        and e = "Exc ValueError ''bad'' None None" and ?w1.0 = 1 and nm = "''upload''",
        OF h1 h2 h3] h2
    by simp
qed

section \<open>Properties of the HTTP connectors\<close>

lemma str_join_nonempty: "p \<noteq> [] \<Longrightarrow> str_join sep (p # ps) \<noteq> []"
  by (cases ps) simp_all

lemma matrix_props_nonempty: "properties \<noteq> [] \<Longrightarrow> matrix_props properties \<noteq> []"
proof (cases properties)
  case Nil
  assume "properties \<noteq> []"
  with Nil show ?thesis by simp
next
  case (Cons kv rest)
  obtain k v where kv: "kv = (k, v)" by (cases kv)
  have "k @ ''='' @ v \<noteq> []" by simp
  then show ?thesis
    unfolding matrix_props_def Cons kv using str_join_nonempty by simp
qed

lemma matrix_props_Nil: "matrix_props [] = []"
  by (simp add: matrix_props_def)

text \<open>
  What the upload URL is for every base URL, name and properties: the path
  \<^verbatim>\<open>os.path.join(base_url, name)\<close>, and after it, when there are properties, a
  semicolon and the pairs \<open>key=value\<close> in the order of the dictionary's items, joined
  by semicolons; with no properties nothing follows the path. For a name that does not
  start with a slash the path is the base URL and the name with one slash between them,
  none being added to an empty base URL or one that ends in a slash. For a name that
  starts with a slash the path is the name alone. The PUT goes to this URL.
\<close>

lemma http_upload_url_matrix_params:
  "http_upload_url c upload_name [] = os_path_join (base_url c) upload_name
   \<and> (properties \<noteq> [] \<longrightarrow>
        http_upload_url c upload_name properties
        = os_path_join (base_url c) upload_name @ '';''
            @ str_join '';'' (map (\<lambda>(k, v). k @ ''='' @ v) properties))
   \<and> (base_url c \<noteq> [] \<and> last (base_url c) \<noteq> CHR ''/''
        \<and> (upload_name = [] \<or> hd upload_name \<noteq> CHR ''/'') \<longrightarrow>
        os_path_join (base_url c) upload_name = base_url c @ ''/'' @ upload_name)
   \<and> ((base_url c = [] \<or> last (base_url c) = CHR ''/'')
        \<and> (upload_name = [] \<or> hd upload_name \<noteq> CHR ''/'') \<longrightarrow>
        os_path_join (base_url c) upload_name = base_url c @ upload_name)
   \<and> (upload_name \<noteq> [] \<and> hd upload_name = CHR ''/'' \<longrightarrow>
        os_path_join (base_url c) upload_name = upload_name)
   \<and> snd (HTTPBasicAuthConnector_upload env c upload_name strm properties tr)
       = tr @ [HttpPut (http_upload_url c upload_name properties) strm
                 (http_username c) (http_password c)]"
proof -
  have a: "http_upload_url c upload_name [] = os_path_join (base_url c) upload_name"
    by (simp add: http_upload_url_def matrix_props_Nil)
  have b: "properties \<noteq> [] \<longrightarrow>
        http_upload_url c upload_name properties
        = os_path_join (base_url c) upload_name @ '';''
            @ str_join '';'' (map (\<lambda>(k, v). k @ ''='' @ v) properties)"
    using matrix_props_nonempty[of properties]
    by (simp add: http_upload_url_def Let_def) (simp add: matrix_props_def)
  have c: "base_url c \<noteq> [] \<and> last (base_url c) \<noteq> CHR ''/''
        \<and> (upload_name = [] \<or> hd upload_name \<noteq> CHR ''/'') \<longrightarrow>
        os_path_join (base_url c) upload_name = base_url c @ ''/'' @ upload_name"
    by (auto simp: os_path_join_def)
  have c': "(base_url c = [] \<or> last (base_url c) = CHR ''/'')
        \<and> (upload_name = [] \<or> hd upload_name \<noteq> CHR ''/'') \<longrightarrow>
        os_path_join (base_url c) upload_name = base_url c @ upload_name"
    by (auto simp: os_path_join_def)
  have c'': "upload_name \<noteq> [] \<and> hd upload_name = CHR ''/'' \<longrightarrow>
        os_path_join (base_url c) upload_name = upload_name"
    by (simp add: os_path_join_def)
  have d: "snd (HTTPBasicAuthConnector_upload env c upload_name strm properties tr)
       = tr @ [HttpPut (http_upload_url c upload_name properties) strm
                 (http_username c) (http_password c)]"
    by (simp add: HTTPBasicAuthConnector_upload_def Let_def split: sum.splits)
  show ?thesis by (intro conjI) (rule a b c c' c'' d)+
qed

text \<open>
  C8: the target URL is to be the base URL, the name and then the matrix parameters. The
  upload builds the path with \<^verbatim>\<open>os.path.join\<close>, which discards the base URL when the
  name starts with a slash: for the base URL \<open>https://host/repo\<close>, the name
  \<open>/a.tar\<close> and the one property \<open>k=v\<close> the PUT goes to \<open>/a.tar;k=v\<close>, a URL
  with neither scheme nor host, and not to a URL under the base. The two-phase connector
  reaches the same input by itself: with the staging path \<open>/staging\<close> it hands the
  name \<open>/staging/a.tar\<close> on, and the staged upload goes to \<open>/staging/a.tar\<close>.
\<close>

theorem http_upload_absolute_name_drops_base:
  "http_upload_url \<lparr>base_url = ''https://host/repo'', http_username = ''u'',
       http_password = ''p''\<rparr> ''/a.tar'' [(''k'', ''v'')]
     = ''/a.tar;k=v''
   \<and> snd (HTTPBasicAuthConnector_upload env
            \<lparr>base_url = ''https://host/repo'', http_username = ''u'', http_password = ''p''\<rparr>
            ''/a.tar'' strm [(''k'', ''v'')] tr)
     = tr @ [HttpPut ''/a.tar;k=v'' strm ''u'' ''p'']
   \<and> take (length ''https://host/repo'') ''/a.tar;k=v'' \<noteq> ''https://host/repo''
   \<and> http_upload_url
         (http_connector.truncate
            \<lparr>base_url = ''https://host/repo'', http_username = ''u'', http_password = ''p'',
              temp_path = ''/staging''\<rparr>)
         (os_path_join
            (temp_path
               \<lparr>base_url = ''https://host/repo'', http_username = ''u'', http_password = ''p'',
                 temp_path = ''/staging''\<rparr>)
            ''a.tar'') []
     = ''/staging/a.tar''"
  by (simp add: http_upload_url_def os_path_join_def matrix_props_def
      HTTPBasicAuthConnector_upload_def Let_def http_connector.defs split: sum.splits)

lemma str_int_500: "str_int 500 = ''500''"
  by (simp add: str_int_def str_nat.simps digit_char_def)

text \<open>
  C5: when the PUT answers with a response, the upload returns the URL exactly when the
  status is 201; for every other status it raises \<open>RetryableFailure\<close> with the message
  "Failed (status: ", the status in decimal, ") to upload " and the URL of the request.
\<close>

theorem http_upload_status:
  assumes "requests_put env tr (http_upload_url c upload_name properties) strm = Inr status"
  shows "(status = 201 \<longrightarrow>
            HTTPBasicAuthConnector_upload env c upload_name strm properties tr
            = (Inr (http_upload_url c upload_name properties),
               tr @ [HttpPut (http_upload_url c upload_name properties) strm
                       (http_username c) (http_password c)]))
       \<and> (status \<noteq> 201 \<longrightarrow>
            HTTPBasicAuthConnector_upload env c upload_name strm properties tr
            = (Inl (Exc RetryableFailure
                      (''Failed (status: '' @ str_int status @ '') to upload ''
                         @ http_upload_url c upload_name properties) None None),
               tr @ [HttpPut (http_upload_url c upload_name properties) strm
                       (http_username c) (http_password c)]))
       \<and> ((\<exists>url. fst (HTTPBasicAuthConnector_upload env c upload_name strm properties tr)
                   = Inr url) \<longleftrightarrow> status = 201)"
  using assms by (simp add: HTTPBasicAuthConnector_upload_def Let_def)

theorem http_upload_status_witness:
  "HTTPBasicAuthConnector_upload (example_env\<lparr>requests_put := (\<lambda>tr url strm. Inr 500)\<rparr>)
     \<lparr>base_url = ''https://host/repo'', http_username = ''u'', http_password = ''p''\<rparr>
     ''a.tar'' ''data'' [] []
   = (Inl (Exc RetryableFailure
             ''Failed (status: 500) to upload https://host/repo/a.tar'' None None),
      [HttpPut ''https://host/repo/a.tar'' ''data'' ''u'' ''p''])"
proof -
  let ?env = "example_env\<lparr>requests_put := (\<lambda>tr url strm. Inr 500)\<rparr>"
  let ?c = "\<lparr>base_url = ''https://host/repo'', http_username = ''u'', http_password = ''p''\<rparr>"
  have u: "http_upload_url ?c ''a.tar'' [] = ''https://host/repo/a.tar''"
    by (simp add: http_upload_url_def os_path_join_def matrix_props_def)
  have h: "requests_put ?env [] (http_upload_url ?c ''a.tar'' []) ''data'' = Inr 500"
    by simp
  have ne: "(500::int) \<noteq> 201" by simp
  from http_upload_status[OF h] ne
  have "HTTPBasicAuthConnector_upload ?env ?c ''a.tar'' ''data'' [] []
            = (Inl (Exc RetryableFailure
                      (''Failed (status: '' @ str_int 500 @ '') to upload ''
                         @ http_upload_url ?c ''a.tar'' []) None None),
               [] @ [HttpPut (http_upload_url ?c ''a.tar'' []) ''data''
                       (http_username ?c) (http_password ?c)])"
    by blast
  then show ?thesis by (simp add: u str_int_500)
qed

lemma plain_exception_not_retryable:
  "Exception \<notin> set ro \<Longrightarrow> BaseException \<notin> set ro \<Longrightarrow>
   \<not> retryable (remote_retry_init g mr rb ro) (Exc Exception msg ca co)"
  by (auto simp: retryable_def remote_retry_init_def isinstance_def list_ex_iff)

text \<open>
  C2: with a staging path that is not empty, when the HEAD request to
  \<^verbatim>\<open>os.path.join(base_url, name)\<close> answers with a status that \<open>Response.ok\<close>
  accepts, the upload raises \<open>Exception('Artifact ... already exists')\<close>; the only
  request made is that HEAD, so every PUT of the trace was there before; and no retry
  policy retries on the exception unless \<open>Exception\<close> or \<open>BaseException\<close> itself was
  added to its classes.
\<close>

theorem two_phase_already_published:
  assumes "temp_path c \<noteq> []"
    and "requests_head env tr (os_path_join (base_url c) upload_name) = Inr status"
    and "response_ok status"
  shows "HTTPBasicAuthConnector2Phase_upload env c upload_name strm properties tr
         = (Inl (Exc Exception
                   (''Artifact '' @ os_path_join (base_url c) upload_name @ '' already exists'')
                   None None),
            tr @ [HttpHead (os_path_join (base_url c) upload_name)])
       \<and> (\<forall>url d u p.
             HttpPut url d u p
               \<in> set (snd (HTTPBasicAuthConnector2Phase_upload env c upload_name strm properties tr))
             \<longrightarrow> HttpPut url d u p \<in> set tr)
       \<and> (\<forall>g mr rb ro. Exception \<notin> set ro \<and> BaseException \<notin> set ro \<longrightarrow>
             \<not> retryable (remote_retry_init g mr rb ro)
                 (Exc Exception
                   (''Artifact '' @ os_path_join (base_url c) upload_name @ '' already exists'')
                   None None))"
proof -
  have r: "HTTPBasicAuthConnector2Phase_upload env c upload_name strm properties tr
         = (Inl (Exc Exception
                   (''Artifact '' @ os_path_join (base_url c) upload_name @ '' already exists'')
                   None None),
            tr @ [HttpHead (os_path_join (base_url c) upload_name)])"
    using assms by (simp add: HTTPBasicAuthConnector2Phase_upload_def Let_def)
  show ?thesis
    unfolding r using plain_exception_not_retryable by auto
qed

theorem two_phase_already_published_witness:
  "HTTPBasicAuthConnector2Phase_upload (example_env\<lparr>requests_head := (\<lambda>tr url. Inr 200)\<rparr>)
     \<lparr>base_url = ''https://host/repo'', http_username = ''u'', http_password = ''p'',
       temp_path = ''staging''\<rparr>
     ''a.tar'' ''data'' [] []
   = (Inl (Exc Exception ''Artifact https://host/repo/a.tar already exists'' None None),
      [HttpHead ''https://host/repo/a.tar''])
   \<and> \<not> retryable (remote_retry_init 5 3 None [])
         (Exc Exception ''Artifact https://host/repo/a.tar already exists'' None None)"
proof -
  let ?env = "example_env\<lparr>requests_head := (\<lambda>tr url. Inr 200)\<rparr>"
  let ?c = "\<lparr>base_url = ''https://host/repo'', http_username = ''u'', http_password = ''p'',
       temp_path = ''staging''\<rparr>"
  have u: "os_path_join (base_url ?c) ''a.tar'' = ''https://host/repo/a.tar''"
    by (simp add: os_path_join_def)
  have h1: "temp_path ?c \<noteq> []" by simp
  have h2: "requests_head ?env [] (os_path_join (base_url ?c) ''a.tar'') = Inr 200" by simp
  have h3: "response_ok 200" by (simp add: response_ok_def)
  have ro: "Exception \<notin> set [] \<and> BaseException \<notin> set []" by simp
  from two_phase_already_published[OF h1 h2 h3, of "''data''" "[]"] ro
  show ?thesis unfolding u by auto
qed

section \<open>Properties of AWSRemote\<close>

text \<open>
  C9: \<open>upload_generic\<close> of the AWS remote does not look at its properties: two calls
  that differ only there return the same result and leave the same trace, and on a
  remote set up for S3 the call is the S3 upload of the name and the stream.
\<close>

theorem aws_upload_generic_ignores_properties:
  "AWSRemote_upload_generic env r name strm properties tr
     = AWSRemote_upload_generic env r name strm properties' tr
   \<and> AWSRemote_upload_generic env (setup_generic r bkt prefix) name strm properties tr
     = S3Connector_upload env
         \<lparr>bucket = bkt, path_prefix = (case prefix of None \<Rightarrow> [] | Some p \<Rightarrow> p)\<rparr>
         name strm tr"
  by (simp add: AWSRemote_upload_generic_def setup_generic_def)

section \<open>Properties of the docker connectors\<close>






lemma tag_and_push_trace:
  "\<exists>res mid. tag_and_push env c local_name upload_path upload_tag tr
       = (res, tr @ [DockerTag local_name upload_path upload_tag] @ mid
                @ [DockerRemoveImage (upload_path @ '':'' @ upload_tag)])
     \<and> (mid = [] \<or> mid = [DockerPush upload_path upload_tag (username c) (password c)])"
  by (simp add: tag_and_push_def Let_def split: option.splits sum.splits)

lemma DockerConnector_upload_body_reaches:
  assumes "docker_from_env env tr = None"
    and "split_name_tag local_name = Inr (n, t)"
    and "registry_list c = reg # regs"
  shows "DockerConnector_upload_body env c local_name upload_name upload_tag tr
     = tag_and_push env c local_name
         (reg @ ''/'' @ (case upload_name of None \<Rightarrow> n | Some u \<Rightarrow> u))
         (case upload_tag of None \<Rightarrow> t | Some u \<Rightarrow> u) (tr @ [DockerFromEnv])"
  using assms by (simp add: DockerConnector_upload_body_def Let_def)

lemma DockerConnector_upload_body_cases:
  assumes "split_name_tag local_name = Inr (n, t)"
    and "registry_list c = reg # regs"
  shows "(\<exists>e. DockerConnector_upload_body env c local_name upload_name upload_tag tr
            = (Inl e, tr @ [DockerFromEnv]))
     \<or> DockerConnector_upload_body env c local_name upload_name upload_tag tr
         = tag_and_push env c local_name
             (reg @ ''/'' @ (case upload_name of None \<Rightarrow> n | Some u \<Rightarrow> u))
             (case upload_tag of None \<Rightarrow> t | Some u \<Rightarrow> u) (tr @ [DockerFromEnv])"
  using assms by (simp add: DockerConnector_upload_body_def Let_def split: option.splits)

lemma count_list_append: "count_list (xs @ ys) x = count_list xs x + count_list ys x"
  by (induction xs) simp_all

lemma DockerConnector_upload_body_balance:
  assumes "split_name_tag local_name = Inr (n, t)"
    and "registry_list c = reg # regs"
    and "path = reg @ ''/'' @ (case upload_name of None \<Rightarrow> n | Some u \<Rightarrow> u)"
    and "tag = (case upload_tag of None \<Rightarrow> t | Some u \<Rightarrow> u)"
    and "count_list tr (DockerTag local_name path tag) + a
         = count_list tr (DockerRemoveImage (path @ '':'' @ tag)) + b"
  shows "count_list (snd (DockerConnector_upload_body env c local_name upload_name upload_tag tr))
           (DockerTag local_name path tag) + a
         = count_list (snd (DockerConnector_upload_body env c local_name upload_name upload_tag tr))
           (DockerRemoveImage (path @ '':'' @ tag)) + b"
proof -
  from DockerConnector_upload_body_cases[OF assms(1,2), of env upload_name upload_tag tr]
  show ?thesis
  proof
    assume "\<exists>e. DockerConnector_upload_body env c local_name upload_name upload_tag tr
            = (Inl e, tr @ [DockerFromEnv])"
    then show ?thesis using assms(5) by (auto simp: count_list_append)
  next
    assume eq: "DockerConnector_upload_body env c local_name upload_name upload_tag tr
         = tag_and_push env c local_name
             (reg @ ''/'' @ (case upload_name of None \<Rightarrow> n | Some u \<Rightarrow> u))
             (case upload_tag of None \<Rightarrow> t | Some u \<Rightarrow> u) (tr @ [DockerFromEnv])"
    from tag_and_push_trace[of env c local_name path tag "tr @ [DockerFromEnv]"]
    obtain res mid where tp: "tag_and_push env c local_name path tag (tr @ [DockerFromEnv])
       = (res, (tr @ [DockerFromEnv]) @ [DockerTag local_name path tag] @ mid
                @ [DockerRemoveImage (path @ '':'' @ tag)])"
      and mid: "mid = [] \<or> mid = [DockerPush path tag (username c) (password c)]"
      by auto
    show ?thesis
      unfolding eq assms(3)[symmetric] assms(4)[symmetric] tp
      using mid assms(5) by (auto simp: count_list_append)
  qed
qed

text \<open>
  C6: an upload whose name parses and whose registry list is not empty reaches the tag
  and push once the docker client is there; that attempt then ends, whatever the tag,
  the push and the check of the stream did, with the removal of
  \<open>registries[0]/uploadName:uploadTag\<close>, after the tag. Over the whole decorated
  call, retries included, as many removals of the alias are issued as tags of it.
\<close>

theorem docker_upload_removes_alias:
  assumes "split_name_tag local_name = Inr (n, t)"
    and "registry_list c = reg # regs"
    and "path = reg @ ''/'' @ (case upload_name of None \<Rightarrow> n | Some u \<Rightarrow> u)"
    and "tag = (case upload_tag of None \<Rightarrow> t | Some u \<Rightarrow> u)"
  shows "(docker_from_env env tr = None \<longrightarrow>
           (\<exists>res mid.
              DockerConnector_upload_body env c local_name upload_name upload_tag tr
                = (res, tr @ [DockerFromEnv, DockerTag local_name path tag] @ mid
                        @ [DockerRemoveImage (path @ '':'' @ tag)])
              \<and> (mid = [] \<or> mid = [DockerPush path tag (username c) (password c)])))
       \<and> count_list (world (snd (DockerConnector_upload env nm c local_name upload_name upload_tag s)))
             (DockerTag local_name path tag)
           + count_list (world s) (DockerRemoveImage (path @ '':'' @ tag))
         = count_list (world (snd (DockerConnector_upload env nm c local_name upload_name upload_tag s)))
             (DockerRemoveImage (path @ '':'' @ tag))
           + count_list (world s) (DockerTag local_name path tag)"
proof (intro conjI impI)
  assume fe: "docker_from_env env tr = None"
  from tag_and_push_trace[of env c local_name path tag "tr @ [DockerFromEnv]"]
  obtain res mid where tp: "tag_and_push env c local_name path tag (tr @ [DockerFromEnv])
       = (res, (tr @ [DockerFromEnv]) @ [DockerTag local_name path tag] @ mid
                @ [DockerRemoveImage (path @ '':'' @ tag)])"
    and mid: "mid = [] \<or> mid = [DockerPush path tag (username c) (password c)]"
    by auto
  have "DockerConnector_upload_body env c local_name upload_name upload_tag tr
                = (res, tr @ [DockerFromEnv, DockerTag local_name path tag] @ mid
                        @ [DockerRemoveImage (path @ '':'' @ tag)])"
    unfolding DockerConnector_upload_body_reaches[OF fe assms(1,2)]
      assms(3)[symmetric] assms(4)[symmetric] tp by simp
  with mid show "\<exists>res mid.
              DockerConnector_upload_body env c local_name upload_name upload_tag tr
                = (res, tr @ [DockerFromEnv, DockerTag local_name path tag] @ mid
                        @ [DockerRemoveImage (path @ '':'' @ tag)])
              \<and> (mid = [] \<or> mid = [DockerPush path tag (username c) (password c)])"
    by (intro exI[of _ res] exI[of _ mid] conjI)
next
  let ?T = "DockerTag local_name path tag"
  let ?R = "DockerRemoveImage (path @ '':'' @ tag)"
  let ?I = "\<lambda>w. count_list w ?T + count_list (world s) ?R
               = count_list w ?R + count_list (world s) ?T"
  have "?I (world (snd (retry_f (remote_retry_default global_retry_backoff) nm
       (DockerConnector_upload_body env c local_name upload_name upload_tag) s)))"
  proof (rule retry_f_invariant[where I = ?I])
    fix w assume "?I w"
    then show "?I (snd (DockerConnector_upload_body env c local_name upload_name upload_tag w))"
      by (rule DockerConnector_upload_body_balance[OF assms(1,2,3,4)])
  next
    show "?I (world s)" by simp
  qed
  then show "count_list (world (snd (DockerConnector_upload env nm c local_name upload_name upload_tag s))) ?T
           + count_list (world s) ?R
         = count_list (world (snd (DockerConnector_upload env nm c local_name upload_name upload_tag s))) ?R
           + count_list (world s) ?T"
    by (simp add: DockerConnector_upload_def)
qed

theorem docker_upload_removes_alias_witness:
  "split_name_tag ''myimg:1.0'' = Inr (''myimg'', ''1.0'')
   \<and> (\<exists>res mid.
        DockerConnector_upload_body
          (example_env\<lparr>docker_push :=
             (\<lambda>tr path tag. Inl (Exc (OtherException ''APIError'') ''denied'' None None))\<rparr>)
          \<lparr>username = ''u'', password = ''p'', registry_list = [''reg.example.com'']\<rparr>
          ''myimg:1.0'' None None []
        = (res, [DockerFromEnv, DockerTag ''myimg:1.0'' ''reg.example.com/myimg'' ''1.0''] @ mid
                @ [DockerRemoveImage ''reg.example.com/myimg:1.0'']))
   \<and> DockerConnector_upload_body
          (example_env\<lparr>docker_push :=
             (\<lambda>tr path tag. Inl (Exc (OtherException ''APIError'') ''denied'' None None))\<rparr>)
          \<lparr>username = ''u'', password = ''p'', registry_list = [''reg.example.com'']\<rparr>
          ''myimg:1.0'' None None []
        = (Inl (Exc (OtherException ''APIError'') ''denied'' None None),
           [DockerFromEnv, DockerTag ''myimg:1.0'' ''reg.example.com/myimg'' ''1.0'',
            DockerPush ''reg.example.com/myimg'' ''1.0'' ''u'' ''p'',
            DockerRemoveImage ''reg.example.com/myimg:1.0''])"
proof -
  let ?env = "example_env\<lparr>docker_push :=
             (\<lambda>tr path tag. Inl (Exc (OtherException ''APIError'') ''denied'' None None))\<rparr>"
  let ?c = "\<lparr>username = ''u'', password = ''p'', registry_list = [''reg.example.com'']\<rparr>"
  have h1: "split_name_tag ''myimg:1.0'' = Inr (''myimg'', ''1.0'')"
    by (simp add: split_name_tag_def)
  have h2: "registry_list ?c = ''reg.example.com'' # []" by simp
  have h3: "''reg.example.com/myimg''
      = ''reg.example.com'' @ ''/'' @ (case None of None \<Rightarrow> ''myimg'' | Some u \<Rightarrow> u)" by simp
  have h4: "''1.0'' = (case None of None \<Rightarrow> ''1.0'' | Some u \<Rightarrow> u)" by simp
  have fe: "docker_from_env ?env [] = None" by (simp add: example_env_def)
  from docker_upload_removes_alias[OF h1 h2 h3 h4, of ?env "[]", THEN conjunct1, THEN mp, OF fe]
  have "\<exists>res mid.
        DockerConnector_upload_body ?env ?c ''myimg:1.0'' None None []
        = (res, [] @ [DockerFromEnv, DockerTag ''myimg:1.0'' ''reg.example.com/myimg'' ''1.0''] @ mid
                @ [DockerRemoveImage (''reg.example.com/myimg'' @ '':'' @ ''1.0'')])
        \<and> (mid = [] \<or> mid = [DockerPush ''reg.example.com/myimg'' ''1.0'' (username ?c) (password ?c)])"
    .
  then obtain res mid where
    "DockerConnector_upload_body ?env ?c ''myimg:1.0'' None None []
        = (res, [] @ [DockerFromEnv, DockerTag ''myimg:1.0'' ''reg.example.com/myimg'' ''1.0''] @ mid
                @ [DockerRemoveImage (''reg.example.com/myimg'' @ '':'' @ ''1.0'')])"
    by (elim exE conjE)
  then have ex: "\<exists>res mid.
        DockerConnector_upload_body ?env ?c ''myimg:1.0'' None None []
        = (res, [DockerFromEnv, DockerTag ''myimg:1.0'' ''reg.example.com/myimg'' ''1.0''] @ mid
                @ [DockerRemoveImage ''reg.example.com/myimg:1.0''])"
    by (intro exI[of _ res] exI[of _ mid]) simp
  have run: "DockerConnector_upload_body ?env ?c ''myimg:1.0'' None None []
        = (Inl (Exc (OtherException ''APIError'') ''denied'' None None),
           [DockerFromEnv, DockerTag ''myimg:1.0'' ''reg.example.com/myimg'' ''1.0'',
            DockerPush ''reg.example.com/myimg'' ''1.0'' ''u'' ''p'',
            DockerRemoveImage ''reg.example.com/myimg:1.0''])"
    by (simp add: DockerConnector_upload_body_def tag_and_push_def example_env_def h1)
  from h1 ex run show ?thesis by (intro conjI)
qed

section \<open>Properties of ECRConnector\<close>

text \<open>
  Neither the docker upload nor the policy call ever creates a repository, and the only
  repository \<open>_create_repo\<close> creates is the one it is called for.
\<close>

lemma DockerConnector_upload_body_no_create:
  "\<exists>new. snd (DockerConnector_upload_body env c local_name upload_name upload_tag tr) = tr @ new
      \<and> (\<forall>name. EcrCreateRepository name \<notin> set new)"
  by (simp add: DockerConnector_upload_body_def tag_and_push_def Let_def
      split: option.splits sum.splits list.splits prod.splits)

lemma DockerConnector_upload_no_create:
  "\<exists>new. world (snd (DockerConnector_upload env nm c local_name upload_name upload_tag s))
        = world s @ new
      \<and> (\<forall>name. EcrCreateRepository name \<notin> set new)"
proof -
  let ?I = "\<lambda>w. \<exists>new. w = world s @ new \<and> (\<forall>name. EcrCreateRepository name \<notin> set new)"
  have "?I (world (snd (retry_f (remote_retry_default global_retry_backoff) nm
       (DockerConnector_upload_body env c local_name upload_name upload_tag) s)))"
  proof (rule retry_f_invariant[where I = ?I])
    fix w assume "?I w"
    then obtain new where w: "w = world s @ new"
      and nc: "\<forall>name. EcrCreateRepository name \<notin> set new" by (elim exE conjE)
    from DockerConnector_upload_body_no_create[of env c local_name upload_name upload_tag w]
    obtain new' where b: "snd (DockerConnector_upload_body env c local_name upload_name upload_tag w)
        = w @ new'" and nc': "\<forall>name. EcrCreateRepository name \<notin> set new'"
      by (elim exE conjE)
    show "?I (snd (DockerConnector_upload_body env c local_name upload_name upload_tag w))"
      using b w nc nc' by (intro exI[of _ "new @ new'"]) simp
  next
    show "?I (world s)" by simp
  qed
  then show ?thesis by (simp add: DockerConnector_upload_def)
qed

lemma set_repo_policy_no_create:
  "\<exists>new. snd (set_repo_policy env c name tr) = tr @ new
      \<and> (\<forall>name'. EcrCreateRepository name' \<notin> set new)"
  by (simp add: set_repo_policy_def split: option.splits)

lemma create_repo_body_trace:
  "\<exists>new. snd (create_repo_body env c name tr) = tr @ EcrCreateRepository name # new
      \<and> (\<forall>name'. EcrCreateRepository name' \<notin> set new)"
proof -
  from set_repo_policy_no_create[of env c name "tr @ [EcrCreateRepository name]"]
  obtain new where p: "snd (set_repo_policy env c name (tr @ [EcrCreateRepository name]))
      = (tr @ [EcrCreateRepository name]) @ new"
    and nc: "\<forall>name'. EcrCreateRepository name' \<notin> set new" by (elim exE conjE)
  show ?thesis
  proof (cases "ecr_create_repository env tr name")
    case (Inr uri)
    then show ?thesis using p nc
      by (intro exI[of _ new]) (simp add: create_repo_body_def Let_def)
  next
    case (Inl e)
    show ?thesis
    proof (cases "isinstance e RepositoryAlreadyExistsException")
      case True
      with Inl show ?thesis using p nc
        by (intro exI[of _ new]) (simp add: create_repo_body_def Let_def)
    next
      case False
      with Inl show ?thesis
        by (intro exI[of _ "[]"]) (simp add: create_repo_body_def Let_def)
    qed
  qed
qed

lemma create_repo_retry_trace:
  "\<exists>new. world (snd (retry_f (remote_retry_init g 3 None [RepositoryNotFoundException]) nm
                   (create_repo_body env c name) s))
        = world s @ EcrCreateRepository name # new
      \<and> (\<forall>name'. EcrCreateRepository name' \<in> set new \<longrightarrow> name' = name)"
proof -
  let ?J = "\<lambda>w. \<exists>new. w = world s @ EcrCreateRepository name # new
      \<and> (\<forall>name'. EcrCreateRepository name' \<in> set new \<longrightarrow> name' = name)"
  have pos: "0 < max_retries (remote_retry_init g 3 None [RepositoryNotFoundException])"
    by (simp add: remote_retry_init_def)
  have first: "?J (snd (create_repo_body env c name (world s)))"
  proof -
    from create_repo_body_trace[of env c name "world s"]
    obtain new where b: "snd (create_repo_body env c name (world s))
        = world s @ EcrCreateRepository name # new"
      and nc: "\<forall>name'. EcrCreateRepository name' \<notin> set new" by (elim exE conjE)
    show ?thesis unfolding b using nc by (intro exI[of _ new]) simp
  qed
  have step: "?J (snd (create_repo_body env c name w))" if "?J w" for w
  proof -
    from that obtain new where w: "w = world s @ EcrCreateRepository name # new"
      and nc: "\<forall>name'. EcrCreateRepository name' \<in> set new \<longrightarrow> name' = name"
      by (elim exE conjE)
    from create_repo_body_trace[of env c name w]
    obtain new' where b: "snd (create_repo_body env c name w)
        = w @ EcrCreateRepository name # new'"
      and nc': "\<forall>name'. EcrCreateRepository name' \<notin> set new'" by (elim exE conjE)
    show ?thesis using b w nc nc'
      by (intro exI[of _ "new @ EcrCreateRepository name # new'"]) auto
  qed
  show ?thesis
    by (rule retry_f_invariant_first[where J = ?J and s = s
          and func = "create_repo_body env c name", OF pos first step])
qed

lemma create_repo_if_new_present:
  "image_name \<in> existing_repos c \<Longrightarrow> create_repo_if_new env g nm c image_name s = (Inr (), c, s)"
  by (simp add: create_repo_if_new_def)

lemma create_repo_if_new_absent:
  assumes "image_name \<notin> existing_repos c"
  shows "\<exists>res c' s' new. create_repo_if_new env g nm c image_name s = (res, c', s')
     \<and> existing_repos c \<subseteq> existing_repos c'
     \<and> world s' = world s @ EcrCreateRepository image_name # new
     \<and> (\<forall>name'. EcrCreateRepository name' \<in> set new \<longrightarrow> name' = image_name)"
proof -
  let ?r = "retry_f (remote_retry_init g 3 None [RepositoryNotFoundException]) nm
                   (create_repo_body env c image_name) s"
  obtain res s' where r: "?r = (res, s')" by (cases ?r)
  from create_repo_retry_trace[of g nm env c image_name s] r
  obtain new where w: "world s' = world s @ EcrCreateRepository image_name # new"
    and nc: "\<forall>name'. EcrCreateRepository name' \<in> set new \<longrightarrow> name' = image_name"
    by auto
  show ?thesis
  proof (cases res)
    case (Inl e)
    have "create_repo_if_new env g nm c image_name s = (Inl e, c, s')"
      using assms r Inl by (simp add: create_repo_if_new_def)
    with w nc show ?thesis by (intro exI[of _ "Inl e"] exI[of _ c] exI[of _ s'] exI[of _ new]) simp
  next
    case (Inr u)
    have "create_repo_if_new env g nm c image_name s
        = (Inr (), c\<lparr>existing_repos := insert image_name (existing_repos c)\<rparr>, s')"
      using assms r Inr by (simp add: create_repo_if_new_def)
    with w nc show ?thesis
      by (intro exI[of _ "Inr ()"]
          exI[of _ "c\<lparr>existing_repos := insert image_name (existing_repos c)\<rparr>"]
          exI[of _ s'] exI[of _ new]) auto
  qed
qed

lemma create_repo_if_new_events:
  "\<exists>res c' s' new. create_repo_if_new env g nm c image_name s = (res, c', s')
     \<and> existing_repos c \<subseteq> existing_repos c'
     \<and> world s' = world s @ new
     \<and> (\<forall>name \<in> existing_repos c. EcrCreateRepository name \<notin> set new)"
proof (cases "image_name \<in> existing_repos c")
  case True
  show ?thesis
    unfolding create_repo_if_new_present[OF True]
    by (intro exI[of _ "Inr ()"] exI[of _ c] exI[of _ s] exI[of _ "[]"]) simp
next
  case False
  from create_repo_if_new_absent[OF False, of env g nm s]
  obtain res c' s' new where "create_repo_if_new env g nm c image_name s = (res, c', s')"
    and "existing_repos c \<subseteq> existing_repos c'"
    and "world s' = world s @ EcrCreateRepository image_name # new"
    and "\<forall>name'. EcrCreateRepository name' \<in> set new \<longrightarrow> name' = image_name"
    by (elim exE conjE)
  with False show ?thesis
    by (intro exI[of _ res] exI[of _ c'] exI[of _ s']
        exI[of _ "EcrCreateRepository image_name # new"]) auto
qed

lemma ECRConnector_upload_present:
  assumes "split_name_tag local_name = Inr (n, t)"
    and "path_prefixes c = prefix # ps"
    and "prefix @ (case upload_name of None \<Rightarrow> n | Some u \<Rightarrow> u) \<in> existing_repos c"
  shows "\<exists>res s' new.
     ECRConnector_upload env g nm_create nm_upload c local_name upload_name upload_tag s
       = (res, c, s')
     \<and> world s' = world s @ new
     \<and> (\<forall>name. EcrCreateRepository name \<notin> set new)"
proof -
  let ?path = "prefix @ (case upload_name of None \<Rightarrow> n | Some u \<Rightarrow> u)"
  let ?d = "DockerConnector_upload env nm_upload (docker_connector.truncate c) local_name
              (Some ?path) upload_tag s"
  obtain res s' where d: "?d = (res, s')" by (cases ?d)
  from DockerConnector_upload_no_create[of env nm_upload "docker_connector.truncate c"
      local_name "Some ?path" upload_tag s] d
  obtain new where w: "world s' = world s @ new"
    and nc: "\<forall>name. EcrCreateRepository name \<notin> set new" by auto
  have "ECRConnector_upload env g nm_create nm_upload c local_name upload_name upload_tag s
       = (res, c, s')"
    using assms d
    by (simp add: ECRConnector_upload_def Let_def create_repo_if_new_present)
  with w nc show ?thesis by (intro exI[of _ res] exI[of _ s'] exI[of _ new]) simp
qed

lemma ECRConnector_upload_events:
  "\<exists>res c' s' new.
     ECRConnector_upload env g nm_create nm_upload c local_name upload_name upload_tag s
       = (res, c', s')
     \<and> existing_repos c \<subseteq> existing_repos c'
     \<and> world s' = world s @ new
     \<and> (\<forall>name \<in> existing_repos c. EcrCreateRepository name \<notin> set new)"
proof (cases "split_name_tag local_name")
  case (Inl e)
  then show ?thesis
    by (intro exI[of _ "Inl e"] exI[of _ c] exI[of _ s] exI[of _ "[]"])
      (simp add: ECRConnector_upload_def)
next
  case (Inr nt)
  obtain n t where nt: "nt = (n, t)" by (cases nt)
  show ?thesis
  proof (cases "path_prefixes c")
    case Nil
    with Inr nt show ?thesis
      by (intro exI[of _ "Inl (Exc IndexError ''list index out of range'' None None)"]
          exI[of _ c] exI[of _ s] exI[of _ "[]"])
        (simp add: ECRConnector_upload_def)
  next
    case (Cons prefix ps)
    let ?path = "prefix @ (case upload_name of None \<Rightarrow> n | Some u \<Rightarrow> u)"
    from create_repo_if_new_events[of env g nm_create c ?path s]
    obtain r1 c1 s1 new1 where cr: "create_repo_if_new env g nm_create c ?path s = (r1, c1, s1)"
      and sub: "existing_repos c \<subseteq> existing_repos c1"
      and w1: "world s1 = world s @ new1"
      and nc1: "\<forall>name \<in> existing_repos c. EcrCreateRepository name \<notin> set new1"
      by (elim exE conjE)
    show ?thesis
    proof (cases r1)
      case (Inl e)
      have "ECRConnector_upload env g nm_create nm_upload c local_name upload_name upload_tag s
          = (Inl e, c1, s1)"
        using Inr nt Cons cr Inl by (simp add: ECRConnector_upload_def Let_def)
      with sub w1 nc1 show ?thesis
        by (intro exI[of _ "Inl e"] exI[of _ c1] exI[of _ s1] exI[of _ new1]) simp
    next
      case (Inr u)
      let ?d = "DockerConnector_upload env nm_upload (docker_connector.truncate c1) local_name
                  (Some ?path) upload_tag s1"
      obtain res s2 where d: "?d = (res, s2)" by (cases ?d)
      from DockerConnector_upload_no_create[of env nm_upload "docker_connector.truncate c1"
          local_name "Some ?path" upload_tag s1] d
      obtain new2 where w2: "world s2 = world s1 @ new2"
        and nc2: "\<forall>name. EcrCreateRepository name \<notin> set new2" by auto
      have "ECRConnector_upload env g nm_create nm_upload c local_name upload_name upload_tag s
          = (res, c1, s2)"
        using \<open>split_name_tag local_name = Inr nt\<close> nt Cons cr Inr d
        by (simp add: ECRConnector_upload_def Let_def)
      with sub w1 w2 nc1 nc2 show ?thesis
        by (intro exI[of _ res] exI[of _ c1] exI[of _ s2] exI[of _ "new1 @ new2"]) simp
    qed
  qed
qed

lemma ECRConnector_uploads_events:
  "\<exists>c' s' new.
     ECRConnector_uploads env g nm_create nm_upload c reqs s = (c', s')
     \<and> existing_repos c \<subseteq> existing_repos c'
     \<and> world s' = world s @ new
     \<and> (\<forall>name \<in> existing_repos c. EcrCreateRepository name \<notin> set new)"
proof (induction reqs arbitrary: c s)
  case Nil
  show ?case by (intro exI[of _ c] exI[of _ s] exI[of _ "[]"]) simp
next
  case (Cons req reqs)
  obtain local_name upload_name upload_tag where req: "req = (local_name, upload_name, upload_tag)"
    by (cases req)
  from ECRConnector_upload_events[of env g nm_create nm_upload c local_name upload_name upload_tag s]
  obtain res c1 s1 new1 where
    u: "ECRConnector_upload env g nm_create nm_upload c local_name upload_name upload_tag s
       = (res, c1, s1)"
    and sub1: "existing_repos c \<subseteq> existing_repos c1"
    and w1: "world s1 = world s @ new1"
    and nc1: "\<forall>name \<in> existing_repos c. EcrCreateRepository name \<notin> set new1"
    by (elim exE conjE)
  from Cons.IH[of c1 s1]
  obtain c2 s2 new2 where
    r: "ECRConnector_uploads env g nm_create nm_upload c1 reqs s1 = (c2, s2)"
    and sub2: "existing_repos c1 \<subseteq> existing_repos c2"
    and w2: "world s2 = world s1 @ new2"
    and nc2: "\<forall>name \<in> existing_repos c1. EcrCreateRepository name \<notin> set new2"
    by (elim exE conjE)
  have "ECRConnector_uploads env g nm_create nm_upload c (req # reqs) s = (c2, s2)"
    using u r req by simp
  with sub1 sub2 w1 w2 nc1 nc2 show ?case
    by (intro exI[of _ c2] exI[of _ s2] exI[of _ "new1 @ new2"]) auto
qed

lemma create_repo_if_new_success:
  assumes "image_name \<notin> existing_repos c"
    and "create_repo_body env c image_name (world s) = (Inr (), tr')"
  shows "create_repo_if_new env g nm c image_name s
     = (Inr (), c\<lparr>existing_repos := insert image_name (existing_repos c)\<rparr>, s\<lparr>world := tr'\<rparr>)"
proof -
  have pos: "0 < max_retries (remote_retry_init g 3 None [RepositoryNotFoundException])"
    by (simp add: remote_retry_init_def)
  have "retry_f (remote_retry_init g 3 None [RepositoryNotFoundException]) nm
          (create_repo_body env c image_name) s = (Inr (), s\<lparr>world := tr'\<rparr>)"
    by (rule retry_f_success_first[where func = "create_repo_body env c image_name" and s = s,
          OF assms(2) pos])
  then show ?thesis using assms(1) by (simp add: create_repo_if_new_def)
qed

lemma create_repo_body_there:
  "repository_there env tr image_name \<Longrightarrow>
   create_repo_body env c image_name tr
     = set_repo_policy env c image_name (tr @ [EcrCreateRepository image_name])"
  by (simp add: repository_there_def create_repo_body_def Let_def split: sum.splits)

lemma create_repo_if_new_policy:
  assumes "image_name \<notin> existing_repos c"
    and "repository_there env (world s) image_name"
    and "new_repo_policy c = Some policy" and "policy \<noteq> []"
    and "ecr_set_repository_policy env (world s @ [EcrCreateRepository image_name])
           image_name policy = None"
  shows "create_repo_if_new env g nm c image_name s
     = (Inr (), c\<lparr>existing_repos := insert image_name (existing_repos c)\<rparr>,
        s\<lparr>world := world s @ [EcrCreateRepository image_name,
                              EcrSetRepositoryPolicy image_name policy]\<rparr>)"
proof -
  have "create_repo_body env c image_name (world s)
      = (Inr (), world s @ [EcrCreateRepository image_name,
                            EcrSetRepositoryPolicy image_name policy])"
    unfolding create_repo_body_there[OF assms(2)] using assms(3,4,5)
    by (simp add: set_repo_policy_def)
  from create_repo_if_new_success[OF assms(1) this] show ?thesis .
qed

lemma create_repo_if_new_no_policy:
  assumes "image_name \<notin> existing_repos c"
    and "repository_there env (world s) image_name"
    and "new_repo_policy c = None \<or> new_repo_policy c = Some []"
  shows "create_repo_if_new env g nm c image_name s
     = (Inr (), c\<lparr>existing_repos := insert image_name (existing_repos c)\<rparr>,
        s\<lparr>world := world s @ [EcrCreateRepository image_name]\<rparr>)"
proof -
  have "create_repo_body env c image_name (world s)
      = (Inr (), world s @ [EcrCreateRepository image_name])"
    unfolding create_repo_body_there[OF assms(2)] using assms(3)
    by (auto simp: set_repo_policy_def)
  from create_repo_if_new_success[OF assms(1) this] show ?thesis .
qed

lemma ECRConnector_upload_delegates:
  assumes "split_name_tag local_name = Inr (n, t)"
    and "path_prefixes c = prefix # ps"
    and "dest = prefix @ (case upload_name of None \<Rightarrow> n | Some u \<Rightarrow> u)"
    and "create_repo_if_new env g nm_create c dest s = (Inr (), c1, s1)"
  shows "ECRConnector_upload env g nm_create nm_upload c local_name upload_name upload_tag s
     = (fst (DockerConnector_upload env nm_upload (docker_connector.truncate c1) local_name
               (Some dest) upload_tag s1),
        c1,
        snd (DockerConnector_upload env nm_upload (docker_connector.truncate c1) local_name
               (Some dest) upload_tag s1))"
  using assms by (simp add: ECRConnector_upload_def Let_def split: prod.splits)

lemma ECRConnector_upload_absent:
  assumes "split_name_tag local_name = Inr (n, t)"
    and "path_prefixes c = prefix # ps"
    and "dest = prefix @ (case upload_name of None \<Rightarrow> n | Some u \<Rightarrow> u)"
    and "dest \<notin> existing_repos c"
  shows "\<exists>res c' s' new.
     ECRConnector_upload env g nm_create nm_upload c local_name upload_name upload_tag s
       = (res, c', s')
     \<and> world s' = world s @ EcrCreateRepository dest # new"
proof -
  from create_repo_if_new_absent[OF assms(4), of env g nm_create s]
  obtain r1 c1 s1 new1 where cr: "create_repo_if_new env g nm_create c dest s = (r1, c1, s1)"
    and w1: "world s1 = world s @ EcrCreateRepository dest # new1"
    by (elim exE conjE)
  show ?thesis
  proof (cases r1)
    case (Inl e)
    have "ECRConnector_upload env g nm_create nm_upload c local_name upload_name upload_tag s
        = (Inl e, c1, s1)"
      using assms(1,2,3) cr Inl by (simp add: ECRConnector_upload_def Let_def)
    with w1 show ?thesis
      by (intro exI[of _ "Inl e"] exI[of _ c1] exI[of _ s1] exI[of _ new1]) simp
  next
    case (Inr u)
    let ?d = "DockerConnector_upload env nm_upload (docker_connector.truncate c1) local_name
                (Some dest) upload_tag s1"
    obtain res s2 where d: "?d = (res, s2)" by (cases ?d)
    from DockerConnector_upload_no_create[of env nm_upload "docker_connector.truncate c1"
        local_name "Some dest" upload_tag s1] d
    obtain new2 where w2: "world s2 = world s1 @ new2" by auto
    have "ECRConnector_upload env g nm_create nm_upload c local_name upload_name upload_tag s
        = (res, c1, s2)"
      using assms(1,2,3) cr Inr d by (simp add: ECRConnector_upload_def Let_def)
    with w1 w2 show ?thesis
      by (intro exI[of _ res] exI[of _ c1] exI[of _ s2] exI[of _ "new1 @ new2"]) simp
  qed
qed

text \<open>
  C4: an upload whose destination, the first path prefix followed by the upload name,
  is in the catalogue issues no repository creation at all and leaves the catalogue as
  it was: it is the docker upload and nothing else. Over any run of uploads through one
  connector the catalogue only grows and no name that was in it at the start is ever
  created. An upload whose destination is not in the catalogue begins with the creation
  of that destination; when the creation answers with the repository or with "already
  exists", the configured policy is applied to the destination next, and when that call
  succeeds (or no policy is configured) the destination joins the catalogue and the
  upload goes on as the docker upload. The same holds of \<open>_create_repo_if_new\<close> for
  any name it is called with.
\<close>

theorem ecr_repository_ensured:
  "(split_name_tag local_name = Inr (n, t) \<and> path_prefixes c = prefix # ps
      \<and> prefix @ (case upload_name of None \<Rightarrow> n | Some u \<Rightarrow> u) \<in> existing_repos c \<longrightarrow>
      (\<exists>res s' new.
         ECRConnector_upload env g nm_create nm_upload c local_name upload_name upload_tag s
           = (res, c, s')
         \<and> world s' = world s @ new
         \<and> (\<forall>name. EcrCreateRepository name \<notin> set new)))
   \<and> (\<exists>c' s' new.
         ECRConnector_uploads env g nm_create nm_upload c reqs s = (c', s')
         \<and> existing_repos c \<subseteq> existing_repos c'
         \<and> world s' = world s @ new
         \<and> (\<forall>name \<in> existing_repos c. EcrCreateRepository name \<notin> set new))
   \<and> (image_name \<notin> existing_repos c \<longrightarrow>
        (\<exists>res c' s' new.
           create_repo_if_new env g nm_create c image_name s = (res, c', s')
           \<and> world s' = world s @ EcrCreateRepository image_name # new))
   \<and> (image_name \<notin> existing_repos c \<and> repository_there env (world s) image_name
        \<and> new_repo_policy c = Some policy \<and> policy \<noteq> []
        \<and> ecr_set_repository_policy env (world s @ [EcrCreateRepository image_name])
              image_name policy = None \<longrightarrow>
        create_repo_if_new env g nm_create c image_name s
          = (Inr (), c\<lparr>existing_repos := insert image_name (existing_repos c)\<rparr>,
             s\<lparr>world := world s @ [EcrCreateRepository image_name,
                                   EcrSetRepositoryPolicy image_name policy]\<rparr>))
   \<and> (image_name \<notin> existing_repos c \<and> repository_there env (world s) image_name
        \<and> (new_repo_policy c = None \<or> new_repo_policy c = Some []) \<longrightarrow>
        create_repo_if_new env g nm_create c image_name s
          = (Inr (), c\<lparr>existing_repos := insert image_name (existing_repos c)\<rparr>,
             s\<lparr>world := world s @ [EcrCreateRepository image_name]\<rparr>))
   \<and> (split_name_tag local_name = Inr (n, t) \<and> path_prefixes c = prefix # ps
        \<and> dest = prefix @ (case upload_name of None \<Rightarrow> n | Some u \<Rightarrow> u)
        \<and> dest \<in> existing_repos c \<longrightarrow>
        ECRConnector_upload env g nm_create nm_upload c local_name upload_name upload_tag s
          = (fst (DockerConnector_upload env nm_upload (docker_connector.truncate c)
                    local_name (Some dest) upload_tag s),
             c,
             snd (DockerConnector_upload env nm_upload (docker_connector.truncate c)
                    local_name (Some dest) upload_tag s)))
   \<and> (split_name_tag local_name = Inr (n, t) \<and> path_prefixes c = prefix # ps
        \<and> dest = prefix @ (case upload_name of None \<Rightarrow> n | Some u \<Rightarrow> u)
        \<and> dest \<notin> existing_repos c \<longrightarrow>
        (\<exists>res c' s' new.
           ECRConnector_upload env g nm_create nm_upload c local_name upload_name upload_tag s
             = (res, c', s')
           \<and> world s' = world s @ EcrCreateRepository dest # new))
   \<and> (split_name_tag local_name = Inr (n, t) \<and> path_prefixes c = prefix # ps
        \<and> dest = prefix @ (case upload_name of None \<Rightarrow> n | Some u \<Rightarrow> u)
        \<and> dest \<notin> existing_repos c \<and> repository_there env (world s) dest
        \<and> new_repo_policy c = Some policy \<and> policy \<noteq> []
        \<and> ecr_set_repository_policy env (world s @ [EcrCreateRepository dest]) dest policy
            = None \<longrightarrow>
        ECRConnector_upload env g nm_create nm_upload c local_name upload_name upload_tag s
          = (fst (DockerConnector_upload env nm_upload
                    (docker_connector.truncate
                       (c\<lparr>existing_repos := insert dest (existing_repos c)\<rparr>))
                    local_name (Some dest) upload_tag
                    (s\<lparr>world := world s @ [EcrCreateRepository dest,
                                          EcrSetRepositoryPolicy dest policy]\<rparr>)),
             c\<lparr>existing_repos := insert dest (existing_repos c)\<rparr>,
             snd (DockerConnector_upload env nm_upload
                    (docker_connector.truncate
                       (c\<lparr>existing_repos := insert dest (existing_repos c)\<rparr>))
                    local_name (Some dest) upload_tag
                    (s\<lparr>world := world s @ [EcrCreateRepository dest,
                                          EcrSetRepositoryPolicy dest policy]\<rparr>))))
   \<and> (split_name_tag local_name = Inr (n, t) \<and> path_prefixes c = prefix # ps
        \<and> dest = prefix @ (case upload_name of None \<Rightarrow> n | Some u \<Rightarrow> u)
        \<and> dest \<notin> existing_repos c \<and> repository_there env (world s) dest
        \<and> (new_repo_policy c = None \<or> new_repo_policy c = Some []) \<longrightarrow>
        ECRConnector_upload env g nm_create nm_upload c local_name upload_name upload_tag s
          = (fst (DockerConnector_upload env nm_upload
                    (docker_connector.truncate
                       (c\<lparr>existing_repos := insert dest (existing_repos c)\<rparr>))
                    local_name (Some dest) upload_tag
                    (s\<lparr>world := world s @ [EcrCreateRepository dest]\<rparr>)),
             c\<lparr>existing_repos := insert dest (existing_repos c)\<rparr>,
             snd (DockerConnector_upload env nm_upload
                    (docker_connector.truncate
                       (c\<lparr>existing_repos := insert dest (existing_repos c)\<rparr>))
                    local_name (Some dest) upload_tag
                    (s\<lparr>world := world s @ [EcrCreateRepository dest]\<rparr>))))"
proof (intro conjI impI)
  assume "split_name_tag local_name = Inr (n, t) \<and> path_prefixes c = prefix # ps
      \<and> prefix @ (case upload_name of None \<Rightarrow> n | Some u \<Rightarrow> u) \<in> existing_repos c"
  then have a: "split_name_tag local_name = Inr (n, t)" and b: "path_prefixes c = prefix # ps"
    and d: "prefix @ (case upload_name of None \<Rightarrow> n | Some u \<Rightarrow> u) \<in> existing_repos c"
    by simp_all
  show "\<exists>res s' new.
         ECRConnector_upload env g nm_create nm_upload c local_name upload_name upload_tag s
           = (res, c, s')
         \<and> world s' = world s @ new
         \<and> (\<forall>name. EcrCreateRepository name \<notin> set new)"
    by (rule ECRConnector_upload_present[OF a b d])
next
  show "\<exists>c' s' new.
         ECRConnector_uploads env g nm_create nm_upload c reqs s = (c', s')
         \<and> existing_repos c \<subseteq> existing_repos c'
         \<and> world s' = world s @ new
         \<and> (\<forall>name \<in> existing_repos c. EcrCreateRepository name \<notin> set new)"
    by (rule ECRConnector_uploads_events)
next
  assume absent: "image_name \<notin> existing_repos c"
  from create_repo_if_new_absent[OF absent, of env g nm_create s]
  obtain res c' s' new where "create_repo_if_new env g nm_create c image_name s = (res, c', s')"
    and "world s' = world s @ EcrCreateRepository image_name # new"
    by (elim exE conjE)
  then show "\<exists>res c' s' new.
           create_repo_if_new env g nm_create c image_name s = (res, c', s')
           \<and> world s' = world s @ EcrCreateRepository image_name # new"
    by (intro exI[of _ res] exI[of _ c'] exI[of _ s'] exI[of _ new]) simp
next
  assume h: "image_name \<notin> existing_repos c \<and> repository_there env (world s) image_name
        \<and> new_repo_policy c = Some policy \<and> policy \<noteq> []
        \<and> ecr_set_repository_policy env (world s @ [EcrCreateRepository image_name])
              image_name policy = None"
  then have h1: "image_name \<notin> existing_repos c"
    and h2: "repository_there env (world s) image_name"
    and h3: "new_repo_policy c = Some policy" and h4: "policy \<noteq> []"
    and h5: "ecr_set_repository_policy env (world s @ [EcrCreateRepository image_name])
              image_name policy = None" by simp_all
  show "create_repo_if_new env g nm_create c image_name s
          = (Inr (), c\<lparr>existing_repos := insert image_name (existing_repos c)\<rparr>,
             s\<lparr>world := world s @ [EcrCreateRepository image_name,
                                   EcrSetRepositoryPolicy image_name policy]\<rparr>)"
    by (rule create_repo_if_new_policy[OF h1 h2 h3 h4 h5])
next
  assume h: "image_name \<notin> existing_repos c \<and> repository_there env (world s) image_name
        \<and> (new_repo_policy c = None \<or> new_repo_policy c = Some [])"
  then have h1: "image_name \<notin> existing_repos c"
    and h2: "repository_there env (world s) image_name"
    and h3: "new_repo_policy c = None \<or> new_repo_policy c = Some []" by simp_all
  show "create_repo_if_new env g nm_create c image_name s
          = (Inr (), c\<lparr>existing_repos := insert image_name (existing_repos c)\<rparr>,
             s\<lparr>world := world s @ [EcrCreateRepository image_name]\<rparr>)"
    by (rule create_repo_if_new_no_policy[OF h1 h2 h3])
next
  assume h: "split_name_tag local_name = Inr (n, t) \<and> path_prefixes c = prefix # ps
        \<and> dest = prefix @ (case upload_name of None \<Rightarrow> n | Some u \<Rightarrow> u)
        \<and> dest \<in> existing_repos c"
  then have a: "split_name_tag local_name = Inr (n, t)" and b: "path_prefixes c = prefix # ps"
    and d: "dest = prefix @ (case upload_name of None \<Rightarrow> n | Some u \<Rightarrow> u)"
    and e: "dest \<in> existing_repos c" by blast+
  have cr: "create_repo_if_new env g nm_create c dest s = (Inr (), c, s)"
    by (rule create_repo_if_new_present[OF e])
  show "ECRConnector_upload env g nm_create nm_upload c local_name upload_name upload_tag s
          = (fst (DockerConnector_upload env nm_upload (docker_connector.truncate c)
                    local_name (Some dest) upload_tag s),
             c,
             snd (DockerConnector_upload env nm_upload (docker_connector.truncate c)
                    local_name (Some dest) upload_tag s))"
    by (rule ECRConnector_upload_delegates[OF a b d cr])
next
  assume h: "split_name_tag local_name = Inr (n, t) \<and> path_prefixes c = prefix # ps
        \<and> dest = prefix @ (case upload_name of None \<Rightarrow> n | Some u \<Rightarrow> u)
        \<and> dest \<notin> existing_repos c"
  then have a: "split_name_tag local_name = Inr (n, t)" and b: "path_prefixes c = prefix # ps"
    and d: "dest = prefix @ (case upload_name of None \<Rightarrow> n | Some u \<Rightarrow> u)"
    and e: "dest \<notin> existing_repos c" by blast+
  show "\<exists>res c' s' new.
           ECRConnector_upload env g nm_create nm_upload c local_name upload_name upload_tag s
             = (res, c', s')
           \<and> world s' = world s @ EcrCreateRepository dest # new"
    by (rule ECRConnector_upload_absent[OF a b d e])
next
  assume h: "split_name_tag local_name = Inr (n, t) \<and> path_prefixes c = prefix # ps
        \<and> dest = prefix @ (case upload_name of None \<Rightarrow> n | Some u \<Rightarrow> u)
        \<and> dest \<notin> existing_repos c \<and> repository_there env (world s) dest
        \<and> new_repo_policy c = Some policy \<and> policy \<noteq> []
        \<and> ecr_set_repository_policy env (world s @ [EcrCreateRepository dest]) dest policy
            = None"
  then have a: "split_name_tag local_name = Inr (n, t)" and b: "path_prefixes c = prefix # ps"
    and d: "dest = prefix @ (case upload_name of None \<Rightarrow> n | Some u \<Rightarrow> u)"
    and h1: "dest \<notin> existing_repos c" and h2: "repository_there env (world s) dest"
    and h3: "new_repo_policy c = Some policy" and h4: "policy \<noteq> []"
    and h5: "ecr_set_repository_policy env (world s @ [EcrCreateRepository dest]) dest policy
            = None" by blast+
  show "ECRConnector_upload env g nm_create nm_upload c local_name upload_name upload_tag s
          = (fst (DockerConnector_upload env nm_upload
                    (docker_connector.truncate
                       (c\<lparr>existing_repos := insert dest (existing_repos c)\<rparr>))
                    local_name (Some dest) upload_tag
                    (s\<lparr>world := world s @ [EcrCreateRepository dest,
                                          EcrSetRepositoryPolicy dest policy]\<rparr>)),
             c\<lparr>existing_repos := insert dest (existing_repos c)\<rparr>,
             snd (DockerConnector_upload env nm_upload
                    (docker_connector.truncate
                       (c\<lparr>existing_repos := insert dest (existing_repos c)\<rparr>))
                    local_name (Some dest) upload_tag
                    (s\<lparr>world := world s @ [EcrCreateRepository dest,
                                          EcrSetRepositoryPolicy dest policy]\<rparr>)))"
    by (rule ECRConnector_upload_delegates
        [OF a b d create_repo_if_new_policy[OF h1 h2 h3 h4 h5]])
next
  assume h: "split_name_tag local_name = Inr (n, t) \<and> path_prefixes c = prefix # ps
        \<and> dest = prefix @ (case upload_name of None \<Rightarrow> n | Some u \<Rightarrow> u)
        \<and> dest \<notin> existing_repos c \<and> repository_there env (world s) dest
        \<and> (new_repo_policy c = None \<or> new_repo_policy c = Some [])"
  then have a: "split_name_tag local_name = Inr (n, t)" and b: "path_prefixes c = prefix # ps"
    and d: "dest = prefix @ (case upload_name of None \<Rightarrow> n | Some u \<Rightarrow> u)"
    and h1: "dest \<notin> existing_repos c" and h2: "repository_there env (world s) dest"
    and h3: "new_repo_policy c = None \<or> new_repo_policy c = Some []" by blast+
  show "ECRConnector_upload env g nm_create nm_upload c local_name upload_name upload_tag s
          = (fst (DockerConnector_upload env nm_upload
                    (docker_connector.truncate
                       (c\<lparr>existing_repos := insert dest (existing_repos c)\<rparr>))
                    local_name (Some dest) upload_tag
                    (s\<lparr>world := world s @ [EcrCreateRepository dest]\<rparr>)),
             c\<lparr>existing_repos := insert dest (existing_repos c)\<rparr>,
             snd (DockerConnector_upload env nm_upload
                    (docker_connector.truncate
                       (c\<lparr>existing_repos := insert dest (existing_repos c)\<rparr>))
                    local_name (Some dest) upload_tag
                    (s\<lparr>world := world s @ [EcrCreateRepository dest]\<rparr>)))"
    by (rule ECRConnector_upload_delegates
        [OF a b d create_repo_if_new_no_policy[OF h1 h2 h3]])
qed

theorem ecr_repository_ensured_witness:
  "create_repo_if_new
     (example_env\<lparr>ecr_create_repository :=
        (\<lambda>tr name. Inl (Exc RepositoryAlreadyExistsException ''exists'' None None))\<rparr>)
     5 ''create''
     \<lparr>username = ''u'', password = ''p'', registry_list = [''reg''],
       path_prefixes = [''team/''], new_repo_policy = Some ''{}'',
       existing_repos = {''team/bar''}\<rparr>
     ''team/foo'' \<lparr>world = [], slept = [], logged = []\<rparr>
   = (Inr (),
      \<lparr>username = ''u'', password = ''p'', registry_list = [''reg''],
        path_prefixes = [''team/''], new_repo_policy = Some ''{}'',
        existing_repos = {''team/foo'', ''team/bar''}\<rparr>,
      \<lparr>world = [EcrCreateRepository ''team/foo'', EcrSetRepositoryPolicy ''team/foo'' ''{}''],
        slept = [], logged = []\<rparr>)
   \<and> (\<exists>res s' new.
        ECRConnector_upload
          (example_env\<lparr>ecr_create_repository :=
             (\<lambda>tr name. Inl (Exc RepositoryAlreadyExistsException ''exists'' None None))\<rparr>)
          5 ''create'' ''upload''
          \<lparr>username = ''u'', password = ''p'', registry_list = [''reg''],
            path_prefixes = [''team/''], new_repo_policy = Some ''{}'',
            existing_repos = {''team/bar''}\<rparr>
          ''bar:1.0'' None None \<lparr>world = [], slept = [], logged = []\<rparr>
        = (res,
           \<lparr>username = ''u'', password = ''p'', registry_list = [''reg''],
             path_prefixes = [''team/''], new_repo_policy = Some ''{}'',
             existing_repos = {''team/bar''}\<rparr>, s')
        \<and> world s' = new
        \<and> (\<forall>name. EcrCreateRepository name \<notin> set new))
   \<and> ECRConnector_upload
          (example_env\<lparr>ecr_create_repository :=
             (\<lambda>tr name. Inl (Exc RepositoryAlreadyExistsException ''exists'' None None))\<rparr>)
          5 ''create'' ''upload''
          \<lparr>username = ''u'', password = ''p'', registry_list = [''reg''],
            path_prefixes = [''team/''], new_repo_policy = Some ''{}'',
            existing_repos = {''team/bar''}\<rparr>
          ''foo:1.0'' None None \<lparr>world = [], slept = [], logged = []\<rparr>
        = (Inr ''reg/team/foo:1.0'',
           \<lparr>username = ''u'', password = ''p'', registry_list = [''reg''],
             path_prefixes = [''team/''], new_repo_policy = Some ''{}'',
             existing_repos = {''team/foo'', ''team/bar''}\<rparr>,
           \<lparr>world = [EcrCreateRepository ''team/foo'',
                     EcrSetRepositoryPolicy ''team/foo'' ''{}'',
                     DockerFromEnv,
                     DockerTag ''foo:1.0'' ''reg/team/foo'' ''1.0'',
                     DockerPush ''reg/team/foo'' ''1.0'' ''u'' ''p'',
                     DockerRemoveImage ''reg/team/foo:1.0''],
             slept = [], logged = []\<rparr>)"
proof -
  let ?env = "example_env\<lparr>ecr_create_repository :=
        (\<lambda>tr name. Inl (Exc RepositoryAlreadyExistsException ''exists'' None None))\<rparr>"
  let ?c = "\<lparr>username = ''u'', password = ''p'', registry_list = [''reg''],
       path_prefixes = [''team/''], new_repo_policy = Some ''{}'',
       existing_repos = {''team/bar''}\<rparr>"
  let ?s = "\<lparr>world = [] :: trace, slept = [], logged = []\<rparr>"
  note t = ecr_repository_ensured[where env = ?env and g = 5 and nm_create = "''create''"
      and nm_upload = "''upload''" and c = ?c and s = ?s and local_name = "''bar:1.0''"
      and upload_name = None and upload_tag = None and n = "''bar''" and t = "''1.0''"
      and prefix = "''team/''" and ps = "[]" and image_name = "''team/foo''"
      and policy = "''{}''"]
  have hb: "''team/foo'' \<notin> existing_repos ?c \<and> repository_there ?env (world ?s) ''team/foo''
        \<and> new_repo_policy ?c = Some ''{}'' \<and> ''{}'' \<noteq> []
        \<and> ecr_set_repository_policy ?env (world ?s @ [EcrCreateRepository ''team/foo''])
              ''team/foo'' ''{}'' = None"
    by (simp add: repository_there_def example_env_def isinstance_def)
  have ha: "split_name_tag ''bar:1.0'' = Inr (''bar'', ''1.0'') \<and> path_prefixes ?c = ''team/'' # []
      \<and> ''team/'' @ (case None of None \<Rightarrow> ''bar'' | Some u \<Rightarrow> u) \<in> existing_repos ?c"
    by (simp add: split_name_tag_def)
  from t[THEN conjunct2, THEN conjunct2, THEN conjunct2, THEN conjunct1, THEN mp, OF hb]
  have w1: "create_repo_if_new ?env 5 ''create'' ?c ''team/foo'' ?s
   = (Inr (),
      \<lparr>username = ''u'', password = ''p'', registry_list = [''reg''],
        path_prefixes = [''team/''], new_repo_policy = Some ''{}'',
        existing_repos = {''team/foo'', ''team/bar''}\<rparr>,
      \<lparr>world = [EcrCreateRepository ''team/foo'', EcrSetRepositoryPolicy ''team/foo'' ''{}''],
        slept = [], logged = []\<rparr>)"
    by simp
  from t[THEN conjunct1, THEN mp, OF ha]
  have w2: "\<exists>res s' new.
        ECRConnector_upload ?env 5 ''create'' ''upload'' ?c ''bar:1.0'' None None ?s
        = (res, ?c, s')
        \<and> world s' = new
        \<and> (\<forall>name. EcrCreateRepository name \<notin> set new)"
    by simp
  let ?dc = "\<lparr>username = ''u'', password = ''p'', registry_list = [''reg'']\<rparr>"
  let ?s1 = "\<lparr>world = [EcrCreateRepository ''team/foo'',
                     EcrSetRepositoryPolicy ''team/foo'' ''{}''], slept = [], logged = []\<rparr>"
  note t3 = ecr_repository_ensured[where env = ?env and g = 5 and nm_create = "''create''"
      and nm_upload = "''upload''" and c = ?c and s = ?s and local_name = "''foo:1.0''"
      and upload_name = None and upload_tag = None and n = "''foo''" and t = "''1.0''"
      and prefix = "''team/''" and ps = "[]" and dest = "''team/foo''"
      and policy = "''{}''"]
  have hu: "split_name_tag ''foo:1.0'' = Inr (''foo'', ''1.0'') \<and> path_prefixes ?c = ''team/'' # []
        \<and> ''team/foo'' = ''team/'' @ (case None of None \<Rightarrow> ''foo'' | Some u \<Rightarrow> u)
        \<and> ''team/foo'' \<notin> existing_repos ?c \<and> repository_there ?env (world ?s) ''team/foo''
        \<and> new_repo_policy ?c = Some ''{}'' \<and> ''{}'' \<noteq> []
        \<and> ecr_set_repository_policy ?env (world ?s @ [EcrCreateRepository ''team/foo''])
              ''team/foo'' ''{}'' = None"
    by (simp add: split_name_tag_def repository_there_def example_env_def isinstance_def)
  have body: "DockerConnector_upload_body ?env ?dc ''foo:1.0'' (Some ''team/foo'') None (world ?s1)
      = (Inr ''reg/team/foo:1.0'',
         [EcrCreateRepository ''team/foo'', EcrSetRepositoryPolicy ''team/foo'' ''{}'',
          DockerFromEnv, DockerTag ''foo:1.0'' ''reg/team/foo'' ''1.0'',
          DockerPush ''reg/team/foo'' ''1.0'' ''u'' ''p'',
          DockerRemoveImage ''reg/team/foo:1.0''])"
    by (simp add: DockerConnector_upload_body_def tag_and_push_def example_env_def
        split_name_tag_def Let_def)
  have pos: "0 < max_retries (remote_retry_default global_retry_backoff)"
    by (simp add: remote_retry_default_def remote_retry_init_def)
  have d: "DockerConnector_upload ?env ''upload'' ?dc ''foo:1.0'' (Some ''team/foo'') None ?s1
      = (Inr ''reg/team/foo:1.0'',
         ?s1\<lparr>world := [EcrCreateRepository ''team/foo'', EcrSetRepositoryPolicy ''team/foo'' ''{}'',
          DockerFromEnv, DockerTag ''foo:1.0'' ''reg/team/foo'' ''1.0'',
          DockerPush ''reg/team/foo'' ''1.0'' ''u'' ''p'',
          DockerRemoveImage ''reg/team/foo:1.0'']\<rparr>)"
    unfolding DockerConnector_upload_def
    by (rule retry_f_success_first
        [where func = "DockerConnector_upload_body ?env ?dc ''foo:1.0'' (Some ''team/foo'') None"
           and s = ?s1, OF body pos])
  from t3[THEN conjunct2, THEN conjunct2, THEN conjunct2, THEN conjunct2, THEN conjunct2,
         THEN conjunct2, THEN conjunct2, THEN conjunct1, THEN mp, OF hu]
  have w3: "ECRConnector_upload
          (example_env\<lparr>ecr_create_repository :=
             (\<lambda>tr name. Inl (Exc RepositoryAlreadyExistsException ''exists'' None None))\<rparr>)
          5 ''create'' ''upload''
          \<lparr>username = ''u'', password = ''p'', registry_list = [''reg''],
            path_prefixes = [''team/''], new_repo_policy = Some ''{}'',
            existing_repos = {''team/bar''}\<rparr>
          ''foo:1.0'' None None \<lparr>world = [], slept = [], logged = []\<rparr>
        = (Inr ''reg/team/foo:1.0'',
           \<lparr>username = ''u'', password = ''p'', registry_list = [''reg''],
             path_prefixes = [''team/''], new_repo_policy = Some ''{}'',
             existing_repos = {''team/foo'', ''team/bar''}\<rparr>,
           \<lparr>world = [EcrCreateRepository ''team/foo'',
                     EcrSetRepositoryPolicy ''team/foo'' ''{}'',
                     DockerFromEnv,
                     DockerTag ''foo:1.0'' ''reg/team/foo'' ''1.0'',
                     DockerPush ''reg/team/foo'' ''1.0'' ''u'' ''p'',
                     DockerRemoveImage ''reg/team/foo:1.0''],
             slept = [], logged = []\<rparr>)"
    by (simp add: docker_connector.defs d)
  from w1 w2 w3 show ?thesis by (intro conjI)
qed

end
